theory Spec2Isabelle
  imports Complex_Main "HOL-Library.AList" "HOL-Library.Word"
begin

section \<open>JavaScript values\<close>

text \<open>
  A JavaScript number is a finite double, NaN or one of the two infinities. A finite
  double is kept as the real number it stands for. Comparison and \<open>Math.floor\<close> are
  exact on doubles; the division rounds its quotient to the nearest double, as below;
  the one sum of the program, that of the two timeouts, is kept unrounded, since only
  its presence and its sign are ever used.
\<close>

datatype jsnum = Finite real | NaN | PosInfinity | NegInfinity

text \<open>The operator \<open>a > b\<close> on numbers: every comparison with NaN is false.\<close>

fun js_gt :: "jsnum \<Rightarrow> jsnum \<Rightarrow> bool" where
  "js_gt (Finite a) (Finite b) = (b < a)"
| "js_gt NaN _ = False"
| "js_gt _ NaN = False"
| "js_gt PosInfinity PosInfinity = False"
| "js_gt PosInfinity _ = True"
| "js_gt NegInfinity _ = False"
| "js_gt (Finite a) NegInfinity = True"
| "js_gt (Finite a) PosInfinity = False"

text \<open>The operator \<open>a + b\<close> on numbers.\<close>

fun js_add :: "jsnum \<Rightarrow> jsnum \<Rightarrow> jsnum" where
  "js_add (Finite a) (Finite b) = Finite (a + b)"
| "js_add NaN _ = NaN"
| "js_add _ NaN = NaN"
| "js_add PosInfinity NegInfinity = NaN"
| "js_add NegInfinity PosInfinity = NaN"
| "js_add PosInfinity _ = PosInfinity"
| "js_add NegInfinity _ = NegInfinity"
| "js_add (Finite a) PosInfinity = PosInfinity"
| "js_add (Finite a) NegInfinity = NegInfinity"

text \<open>
  Rounding to the nearest whole number, a tie going to the even neighbour, and rounding
  of a real to the nearest number with a significand of 53 bits: the rounding of IEEE
  double arithmetic wherever the result is in the normal range of doubles.
\<close>

definition round_half_even :: "real \<Rightarrow> int" where
  "round_half_even x =
     (let f = \<lfloor>x\<rfloor>; d = x - of_int f
      in if d < 1 / 2 then f
         else if 1 / 2 < d then f + 1
         else if even f then f else f + 1)"

definition round_double :: "real \<Rightarrow> real" where
  "round_double x =
     (if x = 0 then 0
      else let ulp = 2 powr of_int (\<lfloor>log 2 \<bar>x\<bar>\<rfloor> - 52)
           in of_int (round_half_even (x / ulp)) * ulp)"

text \<open>
  The expression \<open>x / 1000\<close>, the only division of the program: the quotient of a
  double by 1000 neither overflows nor, for the time values and the numbers above
  100,000,000,000 that the program divides, leaves the normal range.
\<close>

fun js_div1000 :: "jsnum \<Rightarrow> jsnum" where
  "js_div1000 (Finite a) = Finite (round_double (a / 1000))"
| "js_div1000 n = n"

text \<open>\<open>Math.floor\<close>.\<close>

fun Math_floor :: "jsnum \<Rightarrow> jsnum" where
  "Math_floor (Finite a) = Finite (of_int \<lfloor>a\<rfloor>)"
| "Math_floor n = n"

text \<open>The truth value of a number in a condition: 0 and NaN are falsy.\<close>

fun js_truthy_num :: "jsnum \<Rightarrow> bool" where
  "js_truthy_num (Finite a) = (a \<noteq> 0)"
| "js_truthy_num NaN = False"
| "js_truthy_num _ = True"

text \<open>
  Plain data values, as they occur in a params record and in a parsed JSON body.
  An object is the list of its own properties in insertion order.
\<close>

datatype jsval =
    JUndefined
  | JNull
  | JBool bool
  | JNum jsnum
  | JStr string
  | JArr "jsval list"
  | JObj "(string \<times> jsval) list"

type_synonym jsobj = "(string \<times> jsval) list"

text \<open>Reading a property: a missing property reads as \<open>undefined\<close>.\<close>

definition get_prop :: "jsobj \<Rightarrow> string \<Rightarrow> jsval" where
  "get_prop obj k = (case map_of obj k of None \<Rightarrow> JUndefined | Some v \<Rightarrow> v)"

text \<open>The test \<open>v === undefined || v === null\<close>.\<close>

fun is_nullish :: "jsval \<Rightarrow> bool" where
  "is_nullish JUndefined = True"
| "is_nullish JNull = True"
| "is_nullish _ = False"

text \<open>
  The test \<open>String(v).length === 0\<close>. \<open>String\<close> renders \<open>undefined\<close>, \<open>null\<close>, a
  boolean, a number and a plain object as a non-empty text, a string as itself, and an
  array as its elements joined by commas, where a null or undefined element renders as
  the empty text.
\<close>

fun String_is_empty :: "jsval \<Rightarrow> bool" where
  "String_is_empty (JStr s) = (s = [])"
| "String_is_empty (JArr []) = True"
| "String_is_empty (JArr [x]) = (is_nullish x \<or> String_is_empty x)"
| "String_is_empty _ = False"

text \<open>
  A \<open>Date\<close>: its time value is a whole number of milliseconds, at most
  8,640,000,000,000,000 in magnitude, or NaN when the date is invalid.
\<close>

datatype js_Date = ValidDate int | InvalidDate

fun getTime :: "js_Date \<Rightarrow> jsnum" where
  "getTime (ValidDate ms) = Finite (of_int ms)"
| "getTime InvalidDate = NaN"

section \<open>Errors (errors.ts)\<close>

datatype error_class = PlainError | TypeError | SyntaxError | DOMException
  | OgPilotError | ConfigurationError | RequestError

record js_error =
  err_class :: error_class
  err_name :: string
  err_message :: string
  err_status :: "nat option"

text \<open>JavaScript throws any value; \<open>instanceof Error\<close> holds of the first kind only.\<close>

datatype thrown = ThrownError js_error | ThrownValue jsval

definition new_Error :: "string \<Rightarrow> js_error" where
  "new_Error msg =
     \<lparr>err_class = PlainError, err_name = ''Error'', err_message = msg, err_status = None\<rparr>"

definition new_ConfigurationError :: "string \<Rightarrow> js_error" where
  "new_ConfigurationError msg =
     \<lparr>err_class = ConfigurationError, err_name = ''ConfigurationError'',
      err_message = msg, err_status = None\<rparr>"

definition new_RequestError :: "string \<Rightarrow> nat option \<Rightarrow> js_error" where
  "new_RequestError msg st =
     \<lparr>err_class = RequestError, err_name = ''RequestError'',
      err_message = msg, err_status = st\<rparr>"

section \<open>normalizeIat (client.ts)\<close>

datatype iat_input = IatDate js_Date | IatNumber jsnum

fun normalizeIat :: "iat_input \<Rightarrow> jsnum" where
  "normalizeIat (IatDate d) = Math_floor (js_div1000 (getTime d))"
| "normalizeIat (IatNumber n) =
     (if js_gt n (Finite 100000000000) then Math_floor (js_div1000 n) else Math_floor n)"

section \<open>The platform, as far as the program uses it\<close>

text \<open>
  Strings are sequences of code units; this model keeps the code units below 256
  (\<open>char\<close> has 8 bits). Bytes are the elements of a \<open>Uint8Array\<close>.
\<close>

type_synonym byte = "8 word"

text \<open>\<open>TextEncoder.encode\<close>: UTF-8, one byte below 128 and two bytes from there on.\<close>

definition utf8_char :: "char \<Rightarrow> byte list" where
  "utf8_char c =
     (let n = (of_char c :: nat)
      in if n < 128 then [of_nat n] else [of_nat (192 + n div 64), of_nat (128 + n mod 64)])"

definition TextEncoder_encode :: "string \<Rightarrow> byte list" where
  "TextEncoder_encode s = concat (map utf8_char s)"

text \<open>
  Standard base64 with padding (RFC 4648, section 4), which is what both
  \<open>Buffer.from(bytes).toString("base64")\<close> and \<open>btoa\<close> compute.
\<close>

definition base64_alphabet :: string where
  "base64_alphabet =
     ''ABCDEFGHIJKLMNOPQRSTUVWXYZabcdefghijklmnopqrstuvwxyz0123456789+/''"

definition base64_digit :: "nat \<Rightarrow> char" where
  "base64_digit i = base64_alphabet ! (i mod 64)"

fun base64 :: "byte list \<Rightarrow> string" where
  "base64 [] = []"
| "base64 [a] =
     [base64_digit (unat a div 4), base64_digit ((unat a mod 4) * 16), CHR ''='', CHR ''='']"
| "base64 [a, b] =
     [base64_digit (unat a div 4), base64_digit ((unat a mod 4) * 16 + unat b div 16),
      base64_digit ((unat b mod 16) * 4), CHR ''='']"
| "base64 (a # b # c # rest) =
     [base64_digit (unat a div 4), base64_digit ((unat a mod 4) * 16 + unat b div 16),
      base64_digit ((unat b mod 16) * 4 + unat c div 64), base64_digit (unat c mod 64)]
     @ base64 rest"

text \<open>\<open>String.fromCharCode\<close> on a byte, and \<open>btoa\<close> on the binary string built from bytes.\<close>

definition fromCharCode :: "byte \<Rightarrow> char" where
  "fromCharCode b = char_of (unat b)"

definition btoa :: "string \<Rightarrow> string" where
  "btoa binary = base64 (map (\<lambda>c. of_nat (of_char c)) binary)"

text \<open>\<open>s.replace(/c/g, d)\<close> for a single character, and \<open>s.replace(/=+$/g, "")\<close>.\<close>

definition replace_char :: "char \<Rightarrow> char \<Rightarrow> string \<Rightarrow> string" where
  "replace_char c d s = map (\<lambda>x. if x = c then d else x) s"

definition strip_trailing_eq :: "string \<Rightarrow> string" where
  "strip_trailing_eq s = rev (dropWhile (\<lambda>x. x = CHR ''='') (rev s))"

text \<open>Template rendering of a non-negative whole number, as for \<open>response.status\<close>.\<close>

fun show_nat :: "nat \<Rightarrow> string" where
  "show_nat n =
     (if n < 10 then [char_of (48 + n)]
      else show_nat (n div 10) @ [char_of (48 + n mod 10)])"

declare show_nat.simps [simp del]

text \<open>
  A response, as far as the client reads it: the status, the headers under their
  lower-case names, the URL (a stub of the transport may leave it out) and what
  \<open>text()\<close> settles to.
\<close>

record Response =
  resp_status :: nat
  resp_headers :: "(string \<times> string) list"
  resp_url :: "string option"
  resp_text :: "thrown + string"

text \<open>
  What \<open>fetch\<close> is called with. The signal is tied to the timer of the call: it aborts
  after the armed delay, or never when no timer was armed.
\<close>

record Request =
  req_url :: string
  req_method :: string
  req_headers :: "(string \<times> string) list"
  req_redirect :: string
  req_signal :: "jsnum option"

text \<open>A call of \<open>fetch\<close> resolves, rejects, or stays pending for ever.\<close>

datatype fetch_outcome = Resolves Response | Rejects thrown | NeverSettles

text \<open>
  The capabilities of the runtime: \<open>Buffer\<close> and \<open>btoa\<close>, the Web Crypto HMAC-SHA-256
  (import of the key bytes, then signing of the data bytes), \<open>JSON\<close>, the ambient
  \<open>fetch\<close>, the parser of a base URL (its scheme and authority, or none when \<open>new URL\<close>
  throws) and the check that \<open>Headers.set\<close> makes of a name and a value.
\<close>

record platform =
  has_Buffer :: bool
  has_btoa :: bool
  subtle_hmac :: "(byte list \<Rightarrow> byte list \<Rightarrow> thrown + byte list) option"
  JSON_stringify :: "jsval \<Rightarrow> string"
  JSON_parse :: "string \<Rightarrow> thrown + jsval"
  global_fetch :: "(Request \<Rightarrow> fetch_outcome) option"
  URL_base :: "string \<Rightarrow> string option"
  Headers_valid :: "string \<Rightarrow> string \<Rightarrow> bool"

text \<open>A URL: scheme and authority, path, and the list behind \<open>searchParams\<close>.\<close>

record URL =
  url_origin :: string
  url_pathname :: string
  url_searchParams :: "(string \<times> string) list"

definition new_TypeError :: "string \<Rightarrow> js_error" where
  "new_TypeError msg =
     \<lparr>err_class = TypeError, err_name = ''TypeError'', err_message = msg, err_status = None\<rparr>"

text \<open>
  \<open>new URL(path, base)\<close> for a path that starts with one slash and has no dot
  segments: the path replaces the base's, and the base's query and fragment are dropped.
\<close>

definition new_URL :: "platform \<Rightarrow> string \<Rightarrow> string \<Rightarrow> thrown + URL" where
  "new_URL pf path base =
     (case URL_base pf base of
        None \<Rightarrow> Inl (ThrownError (new_TypeError ''Invalid URL''))
      | Some origin \<Rightarrow>
          Inr \<lparr>url_origin = origin, url_pathname = path, url_searchParams = []\<rparr>)"

text \<open>\<open>URLSearchParams.set\<close>: the first entry of that name is replaced, later ones go.\<close>

fun searchParams_set :: "string \<Rightarrow> string \<Rightarrow> (string \<times> string) list \<Rightarrow> (string \<times> string) list" where
  "searchParams_set n v [] = [(n, v)]"
| "searchParams_set n v ((k, x) # ps) =
     (if k = n then (n, v) # filter (\<lambda>p. fst p \<noteq> n) ps
      else (k, x) # searchParams_set n v ps)"

text \<open>The application/x-www-form-urlencoded serializer behind \<open>url.toString()\<close>.\<close>

definition urlencoded_safe :: "nat \<Rightarrow> bool" where
  "urlencoded_safe b =
     (b = 42 \<or> b = 45 \<or> b = 46 \<or> b = 95
      \<or> (48 \<le> b \<and> b \<le> 57) \<or> (65 \<le> b \<and> b \<le> 90) \<or> (97 \<le> b \<and> b \<le> 122))"

definition hex_digit :: "nat \<Rightarrow> char" where
  "hex_digit i = ''0123456789ABCDEF'' ! (i mod 16)"

definition urlencode_byte :: "byte \<Rightarrow> string" where
  "urlencode_byte b =
     (if unat b = 32 then ''+''
      else if urlencoded_safe (unat b) then [char_of (unat b)]
      else [CHR ''%'', hex_digit (unat b div 16), hex_digit (unat b mod 16)])"

definition urlencode :: "string \<Rightarrow> string" where
  "urlencode s = concat (map urlencode_byte (TextEncoder_encode s))"

fun urlencoded_serialize :: "(string \<times> string) list \<Rightarrow> string" where
  "urlencoded_serialize [] = []"
| "urlencoded_serialize [(k, v)] = urlencode k @ ''='' @ urlencode v"
| "urlencoded_serialize ((k, v) # p # ps) =
     urlencode k @ ''='' @ urlencode v @ ''&'' @ urlencoded_serialize (p # ps)"

definition URL_toString :: "URL \<Rightarrow> string" where
  "URL_toString u =
     url_origin u @ url_pathname u @
     (if url_searchParams u = [] then [] else ''?'' @ urlencoded_serialize (url_searchParams u))"

text \<open>
  \<open>Headers\<close>: names are kept in lower case; \<open>set\<close> throws a TypeError on a name or a
  value the platform refuses; \<open>get\<close> answers \<open>null\<close> for a header that is not there.
\<close>

definition ascii_lower :: "char \<Rightarrow> char" where
  "ascii_lower c =
     (let n = (of_char c :: nat) in if 65 \<le> n \<and> n \<le> 90 then char_of (n + 32) else c)"

definition Headers_set ::
  "platform \<Rightarrow> (string \<times> string) list \<Rightarrow> string \<Rightarrow> string \<Rightarrow> thrown + (string \<times> string) list" where
  "Headers_set pf hs k v =
     (if Headers_valid pf k v then Inr (AList.update (map ascii_lower k) v hs)
      else Inl (ThrownError (new_TypeError ''Invalid header'')))"

definition Headers_get :: "(string \<times> string) list \<Rightarrow> string \<Rightarrow> string option" where
  "Headers_get hs k = map_of hs (map ascii_lower k)"

section \<open>The signer (jwt.ts)\<close>

definition toBase64 :: "platform \<Rightarrow> byte list \<Rightarrow> thrown + string" where
  "toBase64 pf bytes =
     (if has_Buffer pf then Inr (base64 bytes)
      else let binary = map fromCharCode bytes
           in if \<not> has_btoa pf
              then Inl (ThrownError (new_Error ''btoa is not available in this environment''))
              else Inr (btoa binary))"

definition base64UrlEncodeBytes :: "platform \<Rightarrow> byte list \<Rightarrow> thrown + string" where
  "base64UrlEncodeBytes pf bytes =
     (case toBase64 pf bytes of
        Inl e \<Rightarrow> Inl e
      | Inr s \<Rightarrow>
          Inr (strip_trailing_eq (replace_char CHR ''/'' CHR ''_'' (replace_char CHR ''+'' CHR ''-'' s))))"

definition base64UrlEncodeString :: "platform \<Rightarrow> string \<Rightarrow> thrown + string" where
  "base64UrlEncodeString pf v = base64UrlEncodeBytes pf (TextEncoder_encode v)"

definition hmacSha256 :: "platform \<Rightarrow> string \<Rightarrow> string \<Rightarrow> thrown + byte list" where
  "hmacSha256 pf data secret =
     (case subtle_hmac pf of
        None \<Rightarrow>
          Inl (ThrownError (new_Error
            ''Web Crypto API is not available; requires a Node 18+ or Edge runtime.''))
      | Some sign \<Rightarrow> sign (TextEncoder_encode secret) (TextEncoder_encode data))"

definition jwt_header :: jsval where
  "jwt_header = JObj [(''alg'', JStr ''HS256''), (''typ'', JStr ''JWT'')]"

definition signJwt :: "platform \<Rightarrow> jsobj \<Rightarrow> string \<Rightarrow> thrown + string" where
  "signJwt pf payload secret =
     (case base64UrlEncodeString pf (JSON_stringify pf jwt_header) of
        Inl e \<Rightarrow> Inl e
      | Inr encodedHeader \<Rightarrow>
     (case base64UrlEncodeString pf (JSON_stringify pf (JObj payload)) of
        Inl e \<Rightarrow> Inl e
      | Inr encodedPayload \<Rightarrow>
     (let signingInput = encodedHeader @ ''.'' @ encodedPayload
      in case hmacSha256 pf signingInput secret of
           Inl e \<Rightarrow> Inl e
         | Inr signature \<Rightarrow>
        (case base64UrlEncodeBytes pf signature of
           Inl e \<Rightarrow> Inl e
         | Inr encodedSignature \<Rightarrow> Inr (signingInput @ ''.'' @ encodedSignature)))))"

text \<open>
  The encoding the specification names: base64url without padding (RFC 4648,
  section 5, with the padding left out), written down on its own.
\<close>

definition base64url_alphabet :: string where
  "base64url_alphabet =
     ''ABCDEFGHIJKLMNOPQRSTUVWXYZabcdefghijklmnopqrstuvwxyz0123456789-_''"

definition base64url_digit :: "nat \<Rightarrow> char" where
  "base64url_digit i = base64url_alphabet ! (i mod 64)"

fun base64url_nopad :: "byte list \<Rightarrow> string" where
  "base64url_nopad [] = []"
| "base64url_nopad [a] =
     [base64url_digit (unat a div 4), base64url_digit ((unat a mod 4) * 16)]"
| "base64url_nopad [a, b] =
     [base64url_digit (unat a div 4), base64url_digit ((unat a mod 4) * 16 + unat b div 16),
      base64url_digit ((unat b mod 16) * 4)]"
| "base64url_nopad (a # b # c # rest) =
     [base64url_digit (unat a div 4), base64url_digit ((unat a mod 4) * 16 + unat b div 16),
      base64url_digit ((unat b mod 16) * 4 + unat c div 64), base64url_digit (unat c mod 64)]
     @ base64url_nopad rest"

text \<open>The bytes of an ASCII string: one byte for each character, its code.\<close>

definition ascii_bytes :: "string \<Rightarrow> byte list" where
  "ascii_bytes s = map (\<lambda>c. of_nat (of_char c)) s"

section \<open>The configuration (config.ts)\<close>

record OgPilotConfigOptions =
  o_apiKey :: "string option"
  o_domain :: "string option"
  o_baseUrl :: "string option"
  o_openTimeoutMs :: "jsnum option"
  o_readTimeoutMs :: "jsnum option"
  o_fetch :: "(Request \<Rightarrow> fetch_outcome) option"
  o_stripExtensions :: "bool option"

record Configuration =
  cfg_apiKey :: "string option"
  cfg_domain :: "string option"
  cfg_baseUrl :: string
  cfg_openTimeoutMs :: "jsnum option"
  cfg_readTimeoutMs :: "jsnum option"
  cfg_fetch :: "(Request \<Rightarrow> fetch_outcome) option"
  cfg_stripExtensions :: bool

definition DEFAULT_BASE_URL :: string where
  "DEFAULT_BASE_URL = ''https://ogpilot.com''"

text \<open>The operator \<open>a ?? b\<close>.\<close>

definition nullish_or :: "'a option \<Rightarrow> 'a \<Rightarrow> 'a" where
  "nullish_or a b = (case a of None \<Rightarrow> b | Some x \<Rightarrow> x)"

text \<open>The constructor; \<open>readEnv\<close> is the lookup in the process environment.\<close>

definition new_Configuration ::
  "(string \<Rightarrow> string option) \<Rightarrow> OgPilotConfigOptions \<Rightarrow> Configuration" where
  "new_Configuration readEnv options =
     \<lparr>cfg_apiKey =
        (case o_apiKey options of None \<Rightarrow> readEnv ''OG_PILOT_API_KEY'' | Some k \<Rightarrow> Some k),
      cfg_domain =
        (case o_domain options of None \<Rightarrow> readEnv ''OG_PILOT_DOMAIN'' | Some d \<Rightarrow> Some d),
      cfg_baseUrl = nullish_or (o_baseUrl options) DEFAULT_BASE_URL,
      cfg_openTimeoutMs = Some (nullish_or (o_openTimeoutMs options) (Finite 5000)),
      cfg_readTimeoutMs = Some (nullish_or (o_readTimeoutMs options) (Finite 10000)),
      cfg_fetch = o_fetch options,
      cfg_stripExtensions = nullish_or (o_stripExtensions options) True\<rparr>"

section \<open>The client (client.ts)\<close>

text \<open>
  Objects live in a store: an address is an index into the list of allocated objects.
  The world also records every call of the transport function.
\<close>

record world =
  heap :: "jsobj list"
  fetch_log :: "Request list"

definition alloc :: "world \<Rightarrow> jsobj \<Rightarrow> nat \<times> world" where
  "alloc w obj = (length (heap w), w\<lparr>heap := heap w @ [obj]\<rparr>)"

definition set_prop :: "world \<Rightarrow> nat \<Rightarrow> string \<Rightarrow> jsval \<Rightarrow> world" where
  "set_prop w a k v = w\<lparr>heap := (heap w)[a := AList.update k v (heap w ! a)]\<rparr>"

definition read_prop :: "world \<Rightarrow> nat \<Rightarrow> string \<Rightarrow> jsval" where
  "read_prop w a k = get_prop (heap w ! a) k"

record CreateImageOptions =
  opt_json :: "bool option"
  opt_iat :: "iat_input option"
  opt_headers :: "(string \<times> string) list option"

definition ENDPOINT_PATH :: string where
  "ENDPOINT_PATH = ''/api/v1/images''"

definition apiKey :: "Configuration \<Rightarrow> thrown + string" where
  "apiKey cfg =
     (case cfg_apiKey cfg of
        Some k \<Rightarrow> Inr k
      | None \<Rightarrow> Inl (ThrownError (new_ConfigurationError ''OG Pilot API key is missing'')))"

definition domain :: "Configuration \<Rightarrow> thrown + string" where
  "domain cfg =
     (case cfg_domain cfg of
        Some d \<Rightarrow> Inr d
      | None \<Rightarrow> Inl (ThrownError (new_ConfigurationError ''OG Pilot domain is missing'')))"

definition apiKeyPrefix :: "Configuration \<Rightarrow> thrown + string" where
  "apiKeyPrefix cfg = (case apiKey cfg of Inl e \<Rightarrow> Inl e | Inr k \<Rightarrow> Inr (take 8 k))"

definition totalTimeoutMs :: "Configuration \<Rightarrow> jsnum option" where
  "totalTimeoutMs cfg =
     (let openTimeoutMs = cfg_openTimeoutMs cfg; readTimeoutMs = cfg_readTimeoutMs cfg
      in if openTimeoutMs = None \<and> readTimeoutMs = None then None
         else let open' = (case openTimeoutMs of Some n \<Rightarrow> n | None \<Rightarrow> Finite 0);
                  read = (case readTimeoutMs of Some n \<Rightarrow> n | None \<Rightarrow> Finite 0)
              in Some (js_add open' read))"

definition validatePayload :: "jsobj \<Rightarrow> thrown + unit" where
  "validatePayload payload =
     (if is_nullish (get_prop payload ''iss'') \<or> String_is_empty (get_prop payload ''iss'')
      then Inl (ThrownError (new_ConfigurationError ''OG Pilot domain is missing''))
      else if is_nullish (get_prop payload ''sub'') \<or> String_is_empty (get_prop payload ''sub'')
      then Inl (ThrownError (new_ConfigurationError ''OG Pilot API key prefix is missing''))
      else if is_nullish (get_prop payload ''title'') \<or> String_is_empty (get_prop payload ''title'')
      then Inl (ThrownError (new_Error ''OG Pilot title is required''))
      else Inr ())"

text \<open>
  \<open>buildPayload\<close> allocates the copy \<open>{ ...params }\<close> and writes to the copy only. It
  answers the address of the payload, or what was thrown, with the world as it is then.
  Its three conditional assignments come first, each on the payload at its address.
\<close>

definition assign_iat :: "world \<Rightarrow> nat \<Rightarrow> iat_input option \<Rightarrow> world" where
  "assign_iat w payload iat =
     (case iat of
        None \<Rightarrow> w
      | Some i \<Rightarrow> set_prop w payload ''iat'' (JNum (normalizeIat i)))"

definition default_iss :: "Configuration \<Rightarrow> world \<Rightarrow> nat \<Rightarrow> thrown + world" where
  "default_iss cfg w payload =
     (if is_nullish (read_prop w payload ''iss'')
      then (case domain cfg of
              Inl e \<Rightarrow> Inl e
            | Inr d \<Rightarrow> Inr (set_prop w payload ''iss'' (JStr d)))
      else Inr w)"

definition default_sub :: "Configuration \<Rightarrow> world \<Rightarrow> nat \<Rightarrow> thrown + world" where
  "default_sub cfg w payload =
     (if is_nullish (read_prop w payload ''sub'')
      then (case apiKeyPrefix cfg of
              Inl e \<Rightarrow> Inl e
            | Inr p \<Rightarrow> Inr (set_prop w payload ''sub'' (JStr p)))
      else Inr w)"

definition buildPayload ::
  "Configuration \<Rightarrow> world \<Rightarrow> nat \<Rightarrow> iat_input option \<Rightarrow> world \<times> (thrown + nat)" where
  "buildPayload cfg w params iat =
     (let (payload, w1) = alloc w (heap w ! params);
          w2 = assign_iat w1 payload iat
      in case default_iss cfg w2 payload of
           Inl e \<Rightarrow> (w2, Inl e)
         | Inr w3 \<Rightarrow>
        (case default_sub cfg w3 payload of
           Inl e \<Rightarrow> (w3, Inl e)
         | Inr w4 \<Rightarrow>
        (case validatePayload (heap w4 ! payload) of
           Inl e \<Rightarrow> (w4, Inl e)
         | Inr _ \<Rightarrow> (w4, Inr payload))))"

definition buildUrl ::
  "platform \<Rightarrow> Configuration \<Rightarrow> world \<Rightarrow> nat \<Rightarrow> iat_input option \<Rightarrow> world \<times> (thrown + URL)" where
  "buildUrl pf cfg w params iat =
     (case buildPayload cfg w params iat of
        (w1, Inl e) \<Rightarrow> (w1, Inl e)
      | (w1, Inr payload) \<Rightarrow>
     (case apiKey cfg of
        Inl e \<Rightarrow> (w1, Inl e)
      | Inr key \<Rightarrow>
     (case signJwt pf (heap w1 ! payload) key of
        Inl e \<Rightarrow> (w1, Inl e)
      | Inr token \<Rightarrow>
     (case new_URL pf ENDPOINT_PATH (cfg_baseUrl cfg) of
        Inl e \<Rightarrow> (w1, Inl e)
      | Inr url \<Rightarrow>
          (w1, Inr (url\<lparr>url_searchParams :=
                          searchParams_set ''token'' token (url_searchParams url)\<rparr>))))))"

text \<open>The timer of \<open>request\<close>: the delay handed to \<open>setTimeout\<close>, if the timer is armed.\<close>

definition armed_timeout :: "Configuration \<Rightarrow> jsnum option" where
  "armed_timeout cfg =
     (case totalTimeoutMs cfg of
        None \<Rightarrow> None
      | Some timeoutMs \<Rightarrow>
          if js_truthy_num timeoutMs \<and> js_gt timeoutMs (Finite 0) then Some timeoutMs else None)"

text \<open>The \<open>catch\<close> clause of \<open>request\<close>: what it throws for what it caught.\<close>

definition request_catch :: "thrown \<Rightarrow> thrown" where
  "request_catch error =
     (case error of
        ThrownError e \<Rightarrow>
          if err_class e = RequestError then error
          else if err_name e = ''AbortError''
          then ThrownError (new_RequestError (''OG Pilot request timed out: '' @ err_message e) None)
          else ThrownError (new_RequestError (''OG Pilot request failed: '' @ err_message e) None)
      | ThrownValue v \<Rightarrow> ThrownError (new_RequestError ''OG Pilot request failed.'' None))"

text \<open>The loop \<open>Object.entries(headers).forEach\<close>, which ends at the first throw.\<close>

fun set_all_headers ::
  "platform \<Rightarrow> (string \<times> string) list \<Rightarrow> (string \<times> string) list
   \<Rightarrow> thrown + (string \<times> string) list" where
  "set_all_headers pf hs [] = Inr hs"
| "set_all_headers pf hs ((k, v) # rest) =
     (case Headers_set pf hs k v of
        Inl e \<Rightarrow> Inl e
      | Inr hs' \<Rightarrow> set_all_headers pf hs' rest)"

definition fetchImpl :: "platform \<Rightarrow> Configuration \<Rightarrow> (Request \<Rightarrow> fetch_outcome) option" where
  "fetchImpl pf cfg = (case cfg_fetch cfg of Some f \<Rightarrow> Some f | None \<Rightarrow> global_fetch pf)"

text \<open>
  The headers of the request: \<open>Accept\<close> in JSON mode, a name and a value that \<open>set\<close>
  never refuses, then the caller's own.
\<close>

definition request_headers ::
  "platform \<Rightarrow> bool \<Rightarrow> (string \<times> string) list \<Rightarrow> thrown + (string \<times> string) list" where
  "request_headers pf json headers =
     set_all_headers pf
       (if json then AList.update (map ascii_lower ''Accept'') ''application/json'' [] else [])
       headers"

definition fetch_request :: "Configuration \<Rightarrow> URL \<Rightarrow> (string \<times> string) list \<Rightarrow> Request" where
  "fetch_request cfg url requestHeaders =
     \<lparr>req_url = URL_toString url, req_method = ''GET'', req_headers = requestHeaders,
      req_redirect = ''manual'', req_signal = armed_timeout cfg\<rparr>"

text \<open>
  \<open>request\<close> answers \<open>None\<close> when the promise of the transport never settles, which
  can only be when the transport does not honour the signal or no timer is armed.
\<close>

definition request ::
  "platform \<Rightarrow> Configuration \<Rightarrow> world \<Rightarrow> URL \<Rightarrow> bool \<Rightarrow> (string \<times> string) list
   \<Rightarrow> world \<times> (thrown + Response) option" where
  "request pf cfg w url json headers =
     (case fetchImpl pf cfg of
        None \<Rightarrow>
          (w, Some (Inl (ThrownError (new_ConfigurationError
             ''Fetch API is not available; provide a fetch implementation in the configuration.''))))
      | Some f \<Rightarrow>
     (case request_headers pf json headers of
        Inl e \<Rightarrow> (w, Some (Inl e))
      | Inr requestHeaders \<Rightarrow>
     (let req = fetch_request cfg url requestHeaders;
          w' = w\<lparr>fetch_log := fetch_log w @ [req]\<rparr>
      in case f req of
           NeverSettles \<Rightarrow> (w', None)
         | Rejects error \<Rightarrow> (w', Some (Inl (request_catch error)))
         | Resolves response \<Rightarrow>
             if 400 \<le> resp_status response
             then let body = (case resp_text response of Inl _ \<Rightarrow> [] | Inr t \<Rightarrow> t)
                  in (w', Some (Inl (request_catch (ThrownError (new_RequestError
                        (''OG Pilot request failed with status '' @ show_nat (resp_status response)
                         @ '': '' @ body)
                        (Some (resp_status response)))))))
             else (w', Some (Inr response)))))"

text \<open>
  \<open>createImage\<close>: \<open>params\<close> is the address of the caller's record, or none for
  \<open>undefined\<close> and \<open>null\<close>, where a fresh empty record takes its place.
\<close>

definition createImage ::
  "platform \<Rightarrow> Configuration \<Rightarrow> world \<Rightarrow> nat option \<Rightarrow> CreateImageOptions
   \<Rightarrow> world \<times> (thrown + jsval) option" where
  "createImage pf cfg w params options =
     (let json = nullish_or (opt_json options) False;
          iat = opt_iat options;
          headers = nullish_or (opt_headers options) [];
          (p, w0) = (case params of Some a \<Rightarrow> (a, w) | None \<Rightarrow> alloc w [])
      in case buildUrl pf cfg w0 p iat of
           (w1, Inl e) \<Rightarrow> (w1, Some (Inl e))
         | (w1, Inr url) \<Rightarrow>
        (case request pf cfg w1 url json headers of
           (w2, None) \<Rightarrow> (w2, None)
         | (w2, Some (Inl e)) \<Rightarrow> (w2, Some (Inl e))
         | (w2, Some (Inr response)) \<Rightarrow>
             if json
             then (case resp_text response of
                     Inl e \<Rightarrow> (w2, Some (Inl e))
                   | Inr body \<Rightarrow>
                       (case JSON_parse pf body of
                          Inl e \<Rightarrow> (w2, Some (Inl e))
                        | Inr v \<Rightarrow> (w2, Some (Inr v))))
             else (w2, Some (Inr (JStr
                    (case Headers_get (resp_headers response) ''location'' of
                       Some l \<Rightarrow> l
                     | None \<Rightarrow>
                         (case resp_url response of
                            Some u \<Rightarrow> u
                          | None \<Rightarrow> URL_toString url)))))))"

section \<open>The contents of the payload, without the store\<close>

text \<open>
  For the proofs: what \<open>buildPayload\<close> leaves in the copy, as a function of the
  contents of the caller's record, and whether it threw. The lemma
  \<open>buildPayload_contents\<close> below ties \<open>buildPayload\<close> to it.
\<close>

definition iat_assigned :: "jsobj \<Rightarrow> iat_input option \<Rightarrow> jsobj" where
  "iat_assigned obj iat =
     (case iat of
        None \<Rightarrow> obj
      | Some i \<Rightarrow> AList.update ''iat'' (JNum (normalizeIat i)) obj)"

definition iss_defaulted :: "Configuration \<Rightarrow> jsobj \<Rightarrow> thrown + jsobj" where
  "iss_defaulted cfg obj =
     (if is_nullish (get_prop obj ''iss'')
      then (case cfg_domain cfg of
              None \<Rightarrow> Inl (ThrownError (new_ConfigurationError ''OG Pilot domain is missing''))
            | Some d \<Rightarrow> Inr (AList.update ''iss'' (JStr d) obj))
      else Inr obj)"

definition sub_defaulted :: "Configuration \<Rightarrow> jsobj \<Rightarrow> thrown + jsobj" where
  "sub_defaulted cfg obj =
     (if is_nullish (get_prop obj ''sub'')
      then (case cfg_apiKey cfg of
              None \<Rightarrow> Inl (ThrownError (new_ConfigurationError ''OG Pilot API key is missing''))
            | Some k \<Rightarrow> Inr (AList.update ''sub'' (JStr (take 8 k)) obj))
      else Inr obj)"

definition payload_contents ::
  "Configuration \<Rightarrow> jsobj \<Rightarrow> iat_input option \<Rightarrow> jsobj \<times> (thrown + unit)" where
  "payload_contents cfg obj iat =
     (case iss_defaulted cfg (iat_assigned obj iat) of
        Inl e \<Rightarrow> (iat_assigned obj iat, Inl e)
      | Inr o2 \<Rightarrow>
     (case sub_defaulted cfg o2 of
        Inl e \<Rightarrow> (o2, Inl e)
      | Inr o3 \<Rightarrow> (o3, validatePayload o3)))"

text \<open>
  The issuer and the subject of a call, as supplied or as defaulted from the
  configuration (\<open>undefined\<close> when neither gives one), and what it is for a value to be
  present and non-empty.
\<close>

definition resolved_iss :: "Configuration \<Rightarrow> jsobj \<Rightarrow> jsval" where
  "resolved_iss cfg obj =
     (if is_nullish (get_prop obj ''iss'')
      then (case cfg_domain cfg of None \<Rightarrow> JUndefined | Some d \<Rightarrow> JStr d)
      else get_prop obj ''iss'')"

definition resolved_sub :: "Configuration \<Rightarrow> jsobj \<Rightarrow> jsval" where
  "resolved_sub cfg obj =
     (if is_nullish (get_prop obj ''sub'')
      then (case cfg_apiKey cfg of None \<Rightarrow> JUndefined | Some k \<Rightarrow> JStr (take 8 k))
      else get_prop obj ''sub'')"

definition nonempty :: "jsval \<Rightarrow> bool" where
  "nonempty v = (\<not> is_nullish v \<and> \<not> String_is_empty v)"

text \<open>The record that \<open>createImage\<close> works on: the caller's, or an empty one.\<close>

definition params_object :: "world \<Rightarrow> nat option \<Rightarrow> jsobj" where
  "params_object w params = (case params of Some a \<Rightarrow> heap w ! a | None \<Rightarrow> [])"

section \<open>Example inputs\<close>

text \<open>
  A platform with \<open>Buffer\<close> and a transport that answers every request with a
  redirect; its JSON and HMAC functions are stand-ins that are good for two inputs.
\<close>

definition stub_stringify :: "jsval \<Rightarrow> string" where
  \<open>stub_stringify v =
     (if v = jwt_header then ''{"alg":"HS256","typ":"JWT"}'' else ''{"title":"x"}'')\<close>

definition stub_hmac :: "byte list \<Rightarrow> byte list \<Rightarrow> thrown + byte list" where
  "stub_hmac key data = (if key = [] then Inl (ThrownValue JNull) else Inr (take 5 (rev data)))"

definition stub_response :: Response where
  "stub_response =
     \<lparr>resp_status = 302, resp_headers = [(''location'', ''https://example.com/img.png'')],
      resp_url = Some [], resp_text = Inr []\<rparr>"

definition stub_platform :: platform where
  "stub_platform =
     \<lparr>has_Buffer = True, has_btoa = False, subtle_hmac = Some stub_hmac,
      JSON_stringify = stub_stringify, JSON_parse = (\<lambda>s. Inr JNull),
      global_fetch = Some (\<lambda>req. Resolves stub_response),
      URL_base = (\<lambda>b. Some b), Headers_valid = (\<lambda>k v. True)\<rparr>"

definition example_config :: Configuration where
  "example_config =
     \<lparr>cfg_apiKey = Some ''secret-key-123'', cfg_domain = Some ''example.com'',
      cfg_baseUrl = ''https://ogpilot.com'', cfg_openTimeoutMs = Some (Finite 5000),
      cfg_readTimeoutMs = Some (Finite 10000), cfg_fetch = None, cfg_stripExtensions = True\<rparr>"

definition default_options :: CreateImageOptions where
  "default_options = \<lparr>opt_json = None, opt_iat = None, opt_headers = None\<rparr>"

text \<open>A world whose only object is the caller's record.\<close>

definition world_with :: "jsobj \<Rightarrow> world" where
  "world_with obj = \<lparr>heap = [obj], fetch_log = []\<rparr>"

definition example_url :: URL where
  "example_url =
     \<lparr>url_origin = ''https://ogpilot.com'', url_pathname = ''/api/v1/images'',
      url_searchParams = [(''token'', ''t'')]\<rparr>"

section \<open>Properties of the payload\<close>

lemma get_prop_update:
  "get_prop (AList.update k v obj) k' = (if k' = k then v else get_prop obj k')"
  by (simp add: get_prop_def update_conv')

lemma set_prop_fresh:
  "set_prop (w\<lparr>heap := hp @ [obj]\<rparr>) (length hp) k v = w\<lparr>heap := hp @ [AList.update k v obj]\<rparr>"
  by (simp add: set_prop_def)

lemma read_prop_fresh:
  "read_prop (w\<lparr>heap := hp @ [obj]\<rparr>) (length hp) k = get_prop obj k"
  by (simp add: read_prop_def)

lemma assign_iat_fresh:
  "assign_iat (w\<lparr>heap := hp @ [obj]\<rparr>) (length hp) iat = w\<lparr>heap := hp @ [iat_assigned obj iat]\<rparr>"
  by (simp add: assign_iat_def iat_assigned_def set_prop_fresh split: option.split)

lemma default_iss_fresh:
  "default_iss cfg (w\<lparr>heap := hp @ [obj]\<rparr>) (length hp) =
     (case iss_defaulted cfg obj of Inl e \<Rightarrow> Inl e | Inr obj' \<Rightarrow> Inr (w\<lparr>heap := hp @ [obj']\<rparr>))"
  by (simp add: default_iss_def iss_defaulted_def domain_def set_prop_fresh read_prop_fresh
      split: option.split)

lemma default_sub_fresh:
  "default_sub cfg (w\<lparr>heap := hp @ [obj]\<rparr>) (length hp) =
     (case sub_defaulted cfg obj of Inl e \<Rightarrow> Inl e | Inr obj' \<Rightarrow> Inr (w\<lparr>heap := hp @ [obj']\<rparr>))"
  by (simp add: default_sub_def sub_defaulted_def apiKeyPrefix_def apiKey_def set_prop_fresh
      read_prop_fresh split: option.split)

lemma buildPayload_contents:
  "buildPayload cfg w params iat =
     (case payload_contents cfg (heap w ! params) iat of
        (obj, r) \<Rightarrow> (w\<lparr>heap := heap w @ [obj]\<rparr>,
                     case r of Inl e \<Rightarrow> Inl e | Inr _ \<Rightarrow> Inr (length (heap w))))"
  by (simp add: buildPayload_def alloc_def payload_contents_def assign_iat_fresh
        default_iss_fresh default_sub_fresh split: sum.split)


lemma get_prop_iat_assigned:
  "k \<noteq> ''iat'' \<Longrightarrow> get_prop (iat_assigned obj iat) k = get_prop obj k"
  by (simp add: iat_assigned_def get_prop_update split: option.split)

lemma get_prop_iat_assigned_iat:
  "get_prop (iat_assigned obj (Some i)) ''iat'' = JNum (normalizeIat i)"
  by (simp add: iat_assigned_def get_prop_update)

lemma iss_defaulted_Inr:
  "iss_defaulted cfg obj = Inr obj' \<Longrightarrow>
     (\<forall>k. k \<noteq> ''iss'' \<longrightarrow> get_prop obj' k = get_prop obj k)
     \<and> (if is_nullish (get_prop obj ''iss'')
        then \<exists>d. cfg_domain cfg = Some d \<and> get_prop obj' ''iss'' = JStr d
        else get_prop obj' ''iss'' = get_prop obj ''iss'')"
  by (auto simp: iss_defaulted_def get_prop_update split: if_splits option.splits)

lemma sub_defaulted_Inr:
  "sub_defaulted cfg obj = Inr obj' \<Longrightarrow>
     (\<forall>k. k \<noteq> ''sub'' \<longrightarrow> get_prop obj' k = get_prop obj k)
     \<and> (if is_nullish (get_prop obj ''sub'')
        then \<exists>k. cfg_apiKey cfg = Some k \<and> get_prop obj' ''sub'' = JStr (take 8 k)
        else get_prop obj' ''sub'' = get_prop obj ''sub'')"
  by (auto simp: sub_defaulted_def get_prop_update split: if_splits option.splits)

lemma iss_defaulted_Inl:
  "iss_defaulted cfg obj = Inl e \<Longrightarrow>
     e = ThrownError (new_ConfigurationError ''OG Pilot domain is missing'')
     \<and> is_nullish (get_prop obj ''iss'') \<and> cfg_domain cfg = None"
  by (auto simp: iss_defaulted_def split: if_splits option.splits)

lemma sub_defaulted_Inl:
  "sub_defaulted cfg obj = Inl e \<Longrightarrow>
     e = ThrownError (new_ConfigurationError ''OG Pilot API key is missing'')
     \<and> is_nullish (get_prop obj ''sub'') \<and> cfg_apiKey cfg = None"
  by (auto simp: sub_defaulted_def split: if_splits option.splits)

lemma payload_contents_Inr:
  assumes "payload_contents cfg obj iat = (P, Inr u)"
  shows "(if is_nullish (get_prop obj ''iss'')
          then \<exists>d. cfg_domain cfg = Some d \<and> get_prop P ''iss'' = JStr d
          else get_prop P ''iss'' = get_prop obj ''iss'')
       \<and> (if is_nullish (get_prop obj ''sub'')
          then \<exists>k. cfg_apiKey cfg = Some k \<and> get_prop P ''sub'' = JStr (take 8 k)
          else get_prop P ''sub'' = get_prop obj ''sub'')
       \<and> get_prop P ''title'' = get_prop obj ''title''
       \<and> (\<forall>i. iat = Some i \<longrightarrow> get_prop P ''iat'' = JNum (normalizeIat i))
       \<and> validatePayload P = Inr ()"
proof -
  let ?o1 = "iat_assigned obj iat"
  from assms obtain o2 where o2: "iss_defaulted cfg ?o1 = Inr o2"
    and rest: "(case sub_defaulted cfg o2 of Inl e \<Rightarrow> (o2, Inl e) | Inr o3 \<Rightarrow> (o3, validatePayload o3)) = (P, Inr u)"
    by (auto simp: payload_contents_def split: sum.splits)
  from rest have o3: "sub_defaulted cfg o2 = Inr P" and v: "validatePayload P = Inr ()"
    by (auto split: sum.splits)
  note A = iss_defaulted_Inr[OF o2] and B = sub_defaulted_Inr[OF o3]
  have 1: "get_prop ?o1 ''iss'' = get_prop obj ''iss''" "get_prop ?o1 ''sub'' = get_prop obj ''sub''"
    "get_prop ?o1 ''title'' = get_prop obj ''title''"
    by (simp_all add: get_prop_iat_assigned)
  have iss: "get_prop P ''iss'' = get_prop o2 ''iss''" using B by simp
  have sub: "get_prop o2 ''sub'' = get_prop obj ''sub''" using A 1 by simp
  have title: "get_prop P ''title'' = get_prop obj ''title''" using A B 1 by simp
  have iat: "\<forall>i. iat = Some i \<longrightarrow> get_prop P ''iat'' = JNum (normalizeIat i)"
    using A B by (simp add: get_prop_iat_assigned_iat)
  show ?thesis using A B iss sub title iat v 1 by simp
qed

section \<open>The worlds of a call\<close>

lemma buildUrl_contents:
  "buildUrl pf cfg w p iat =
     (case payload_contents cfg (heap w ! p) iat of
        (obj, r) \<Rightarrow>
          (w\<lparr>heap := heap w @ [obj]\<rparr>,
           case r of
             Inl e \<Rightarrow> Inl e
           | Inr _ \<Rightarrow>
          (case apiKey cfg of
             Inl e \<Rightarrow> Inl e
           | Inr key \<Rightarrow>
          (case signJwt pf obj key of
             Inl e \<Rightarrow> Inl e
           | Inr token \<Rightarrow>
          (case new_URL pf ENDPOINT_PATH (cfg_baseUrl cfg) of
             Inl e \<Rightarrow> Inl e
           | Inr url \<Rightarrow>
               Inr (url\<lparr>url_searchParams :=
                          searchParams_set ''token'' token (url_searchParams url)\<rparr>))))))"
  by (simp add: buildUrl_def buildPayload_contents split: prod.split sum.split)

lemma buildUrl_world:
  "buildUrl pf cfg w p iat = (w1, r) \<Longrightarrow>
     \<exists>obj. w1 = w\<lparr>heap := heap w @ [obj]\<rparr>"
  by (auto simp: buildUrl_contents split: prod.splits)

lemma request_world:
  "request pf cfg w url json headers = (w', r) \<Longrightarrow>
     heap w' = heap w \<and>
     (fetch_log w' = fetch_log w \<or> (\<exists>req. fetch_log w' = fetch_log w @ [req]))"
  by (auto simp: request_def Let_def split: option.splits sum.splits fetch_outcome.splits if_splits)

text \<open>\<open>createImage\<close> in its two stages, with the options read off.\<close>

lemma createImage_stages:
  "createImage pf cfg w params options =
     (case (case params of Some a \<Rightarrow> (a, w) | None \<Rightarrow> alloc w []) of
        (p, w0) \<Rightarrow>
          (case buildUrl pf cfg w0 p (opt_iat options) of
             (w1, Inl e) \<Rightarrow> (w1, Some (Inl e))
           | (w1, Inr url) \<Rightarrow>
               (case request pf cfg w1 url (nullish_or (opt_json options) False)
                       (nullish_or (opt_headers options) []) of
                  (w2, None) \<Rightarrow> (w2, None)
                | (w2, Some (Inl e)) \<Rightarrow> (w2, Some (Inl e))
                | (w2, Some (Inr response)) \<Rightarrow>
                    (w2, if nullish_or (opt_json options) False
                         then (case resp_text response of
                                 Inl e \<Rightarrow> Some (Inl e)
                               | Inr body \<Rightarrow>
                                   (case JSON_parse pf body of
                                      Inl e \<Rightarrow> Some (Inl e)
                                    | Inr v \<Rightarrow> Some (Inr v)))
                         else Some (Inr (JStr
                            (case Headers_get (resp_headers response) ''location'' of
                               Some l \<Rightarrow> l
                             | None \<Rightarrow>
                                 (case resp_url response of
                                    Some u \<Rightarrow> u
                                  | None \<Rightarrow> URL_toString url))))))))"
  by (simp add: createImage_def Let_def split: prod.split sum.split option.split)

lemma createImage_build_fails:
  assumes "(case params of Some a \<Rightarrow> (a, w) | None \<Rightarrow> alloc w []) = (p, w0)"
    and "buildUrl pf cfg w0 p (opt_iat options) = (w1, Inl e)"
  shows "createImage pf cfg w params options = (w1, Some (Inl e))"
  using assms by (simp add: createImage_stages)

lemma createImage_world:
  assumes "createImage pf cfg w params options = (w', r)"
  shows "\<exists>objs. heap w' = heap w @ objs"
proof -
  obtain p w0 where pw: "(case params of Some a \<Rightarrow> (a, w) | None \<Rightarrow> alloc w []) = (p, w0)"
    by (cases "(case params of Some a \<Rightarrow> (a, w) | None \<Rightarrow> alloc w [])") 
  then have h0: "\<exists>xs. heap w0 = heap w @ xs"
    by (auto simp: alloc_def split: option.splits)
  obtain w1 u where bu: "buildUrl pf cfg w0 p (opt_iat options) = (w1, u)"
    by (cases "buildUrl pf cfg w0 p (opt_iat options)")
  from buildUrl_world[OF bu] have h1: "\<exists>xs. heap w1 = heap w0 @ xs" by auto
  show ?thesis
  proof (cases u)
    case (Inl e)
    with assms pw bu have "w' = w1" by (simp add: createImage_stages)
    with h0 h1 show ?thesis by auto
  next
    case (Inr url)
    obtain w2 q where rq: "request pf cfg w1 url (nullish_or (opt_json options) False)
        (nullish_or (opt_headers options) []) = (w2, q)"
      by (cases "request pf cfg w1 url (nullish_or (opt_json options) False)
        (nullish_or (opt_headers options) [])")
    from request_world[OF rq] have h2: "heap w2 = heap w1" by simp
    from assms pw bu Inr rq have "w' = w2"
      by (auto simp: createImage_stages split: option.splits sum.splits)
    with h0 h1 h2 show ?thesis by auto
  qed
qed

section \<open>The outcome of building the payload\<close>

lemma payload_contents_snd:
  "\<exists>e. err_class e = ConfigurationError \<and>
     snd (payload_contents cfg obj iat) =
       (if nonempty (resolved_iss cfg obj) \<and> nonempty (resolved_sub cfg obj)
        then (if nonempty (get_prop obj ''title'') then Inr ()
              else Inl (ThrownError (new_Error ''OG Pilot title is required'')))
        else Inl (ThrownError e))"
proof -
  let ?o1 = "iat_assigned obj iat"
  have 1: "get_prop ?o1 ''iss'' = get_prop obj ''iss''" "get_prop ?o1 ''sub'' = get_prop obj ''sub''"
    "get_prop ?o1 ''title'' = get_prop obj ''title''"
    by (simp_all add: get_prop_iat_assigned)
  show ?thesis
  proof (cases "iss_defaulted cfg ?o1")
    case (Inl t)
    from iss_defaulted_Inl[OF Inl] show ?thesis
      by (intro exI[of _ "new_ConfigurationError ''OG Pilot domain is missing''"])
         (simp add: payload_contents_def Inl 1 resolved_iss_def nonempty_def new_ConfigurationError_def)
  next
    case (Inr o2)
    note A = iss_defaulted_Inr[OF Inr]
    have riss: "get_prop o2 ''iss'' = resolved_iss cfg obj"
      using A 1 by (auto simp: resolved_iss_def split: if_splits)
    have o2: "get_prop o2 ''sub'' = get_prop obj ''sub''" "get_prop o2 ''title'' = get_prop obj ''title''"
      using A 1 by simp_all
    show ?thesis
    proof (cases "sub_defaulted cfg o2")
      case (Inl t)
      from sub_defaulted_Inl[OF Inl] o2 show ?thesis
        by (intro exI[of _ "new_ConfigurationError ''OG Pilot API key is missing''"])
           (simp add: payload_contents_def Inl \<open>iss_defaulted cfg ?o1 = Inr o2\<close>
              resolved_sub_def nonempty_def new_ConfigurationError_def)
    next
      case (Inr o3)
      note B = sub_defaulted_Inr[OF Inr]
      have rsub: "get_prop o3 ''sub'' = resolved_sub cfg obj"
        using B o2 by (auto simp: resolved_sub_def split: if_splits)
      have o3: "get_prop o3 ''iss'' = resolved_iss cfg obj" "get_prop o3 ''title'' = get_prop obj ''title''"
        using B riss o2 by simp_all
      have snd: "snd (payload_contents cfg obj iat) = validatePayload o3"
        by (simp add: payload_contents_def Inr \<open>iss_defaulted cfg ?o1 = Inr o2\<close>)
      show ?thesis
        unfolding snd validatePayload_def rsub o3 nonempty_def
        by (cases "is_nullish (resolved_iss cfg obj) \<or> String_is_empty (resolved_iss cfg obj)")
           (auto simp: new_ConfigurationError_def
              intro: exI[of _ "new_ConfigurationError ''OG Pilot domain is missing''"]
                     exI[of _ "new_ConfigurationError ''OG Pilot API key prefix is missing''"])
    qed
  qed
qed

lemma params_world:
  assumes "(case params of Some a \<Rightarrow> (a, w) | None \<Rightarrow> alloc w []) = (p, w0)"
  shows "heap w0 ! p = params_object w params \<and> fetch_log w0 = fetch_log w"
  using assms by (auto simp: params_object_def alloc_def split: option.splits)

lemma createImage_early:
  assumes "snd (payload_contents cfg (params_object w params) (opt_iat options)) = Inl t"
  shows "\<exists>w'. createImage pf cfg w params options = (w', Some (Inl t)) \<and> fetch_log w' = fetch_log w"
proof -
  obtain p w0 where pw: "(case params of Some a \<Rightarrow> (a, w) | None \<Rightarrow> alloc w []) = (p, w0)"
    by (cases "(case params of Some a \<Rightarrow> (a, w) | None \<Rightarrow> alloc w [])")
  note P = params_world[OF pw]
  obtain obj where pc: "payload_contents cfg (heap w0 ! p) (opt_iat options) = (obj, Inl t)"
    using assms P by (cases "payload_contents cfg (heap w0 ! p) (opt_iat options)") simp
  have "buildUrl pf cfg w0 p (opt_iat options) = (w0\<lparr>heap := heap w0 @ [obj]\<rparr>, Inl t)"
    by (simp add: buildUrl_contents pc)
  from createImage_build_fails[OF pw this] P show ?thesis by simp
qed

lemma createImage_no_key:
  assumes "snd (payload_contents cfg (params_object w params) (opt_iat options)) = Inr u"
    and "cfg_apiKey cfg = None"
  shows "\<exists>w'. createImage pf cfg w params options =
           (w', Some (Inl (ThrownError (new_ConfigurationError ''OG Pilot API key is missing''))))
         \<and> fetch_log w' = fetch_log w"
proof -
  obtain p w0 where pw: "(case params of Some a \<Rightarrow> (a, w) | None \<Rightarrow> alloc w []) = (p, w0)"
    by (cases "(case params of Some a \<Rightarrow> (a, w) | None \<Rightarrow> alloc w [])")
  note P = params_world[OF pw]
  obtain obj where pc: "payload_contents cfg (heap w0 ! p) (opt_iat options) = (obj, Inr u)"
    using assms P by (cases "payload_contents cfg (heap w0 ! p) (opt_iat options)") simp
  have "buildUrl pf cfg w0 p (opt_iat options) =
      (w0\<lparr>heap := heap w0 @ [obj]\<rparr>,
       Inl (ThrownError (new_ConfigurationError ''OG Pilot API key is missing'')))"
    by (simp add: buildUrl_contents pc apiKey_def assms(2))
  from createImage_build_fails[OF pw this] P show ?thesis by simp
qed

section \<open>The request\<close>

lemma request_catch_RequestError:
  "request_catch (ThrownError (new_RequestError m s)) = ThrownError (new_RequestError m s)"
  by (simp add: request_catch_def new_RequestError_def)

lemma request_catch_class:
  "\<exists>e. request_catch t = ThrownError e \<and> err_class e = RequestError"
  by (cases t) (auto simp: request_catch_def new_RequestError_def)

lemma request_no_fetch:
  "fetchImpl pf cfg = None \<Longrightarrow>
   request pf cfg w url json headers =
     (w, Some (Inl (ThrownError (new_ConfigurationError
        ''Fetch API is not available; provide a fetch implementation in the configuration.''))))"
  by (simp add: request_def)

lemma request_bad_headers:
  "fetchImpl pf cfg = Some f \<Longrightarrow> request_headers pf json headers = Inl t \<Longrightarrow>
   request pf cfg w url json headers = (w, Some (Inl t))"
  by (simp add: request_def)

lemma request_fetched:
  "fetchImpl pf cfg = Some f \<Longrightarrow> request_headers pf json headers = Inr hs \<Longrightarrow>
   request pf cfg w url json headers =
     (w\<lparr>fetch_log := fetch_log w @ [fetch_request cfg url hs]\<rparr>,
      case f (fetch_request cfg url hs) of
        NeverSettles \<Rightarrow> None
      | Rejects error \<Rightarrow> Some (Inl (request_catch error))
      | Resolves response \<Rightarrow>
          if 400 \<le> resp_status response
          then Some (Inl (ThrownError (new_RequestError
                 (''OG Pilot request failed with status '' @ show_nat (resp_status response)
                  @ '': '' @ (case resp_text response of Inl _ \<Rightarrow> [] | Inr t \<Rightarrow> t))
                 (Some (resp_status response)))))
          else Some (Inr response))"
  by (simp add: request_def Let_def request_catch_RequestError split: fetch_outcome.split)

lemma buildUrl_log: "buildUrl pf cfg w p iat = (w1, r) \<Longrightarrow> fetch_log w1 = fetch_log w"
  using buildUrl_world by fastforce

section \<open>The encoding of the signer\<close>

lemma urlsafe_alphabet:
  "replace_char CHR ''/'' CHR ''_'' (replace_char CHR ''+'' CHR ''-'' base64_alphabet)
   = base64url_alphabet"
  by (simp add: replace_char_def base64_alphabet_def base64url_alphabet_def)

lemma length_base64_alphabet: "length base64_alphabet = 64"
  by (simp add: base64_alphabet_def)

lemma length_base64url_alphabet: "length base64url_alphabet = 64"
  by (simp add: base64url_alphabet_def)

lemma urlsafe_digit:
  "(\<lambda>x. if x = CHR ''/'' then CHR ''_'' else x)
     ((\<lambda>x. if x = CHR ''+'' then CHR ''-'' else x) (base64_digit i)) = base64url_digit i"
proof -
  have "i mod 64 < length base64_alphabet" by (simp add: length_base64_alphabet)
  then have "replace_char CHR ''/'' CHR ''_'' (replace_char CHR ''+'' CHR ''-'' base64_alphabet)
      ! (i mod 64)
    = (\<lambda>x. if x = CHR ''/'' then CHR ''_'' else x)
        ((\<lambda>x. if x = CHR ''+'' then CHR ''-'' else x) (base64_alphabet ! (i mod 64)))"
    by (simp add: replace_char_def)
  then show ?thesis
    by (simp add: urlsafe_alphabet base64_digit_def base64url_digit_def)
qed

lemma base64url_digit_in: "base64url_digit i \<in> set base64url_alphabet"
  by (simp add: base64url_digit_def length_base64url_alphabet)

lemma base64url_alphabet_props:
  "\<forall>c \<in> set base64url_alphabet.
     c \<noteq> CHR ''='' \<and> (of_char c :: nat) < 128 \<and> urlencoded_safe (of_char c)"
  by (simp add: base64url_alphabet_def urlencoded_safe_def)

lemma base64url_nopad_chars: "set (base64url_nopad bs) \<subseteq> set base64url_alphabet"
  by (induction bs rule: base64url_nopad.induct) (simp_all add: base64url_digit_in)

lemma urlsafe_base64:
  "\<exists>n. replace_char CHR ''/'' CHR ''_'' (replace_char CHR ''+'' CHR ''-'' (base64 bs))
       = base64url_nopad bs @ replicate n CHR ''=''"
proof (induction bs rule: base64.induct)
  case 1
  show ?case by (simp add: replace_char_def)
next
  case (2 a)
  show ?case
    by (rule exI[of _ 2]) (simp add: replace_char_def urlsafe_digit numeral_2_eq_2)
next
  case (3 a b)
  show ?case
    by (rule exI[of _ 1]) (simp add: replace_char_def urlsafe_digit)
next
  case (4 a b c rest)
  then obtain n where "replace_char CHR ''/'' CHR ''_'' (replace_char CHR ''+'' CHR ''-'' (base64 rest))
       = base64url_nopad rest @ replicate n CHR ''=''" by blast
  then show ?case
    by (intro exI[of _ n]) (simp add: replace_char_def urlsafe_digit)
qed

lemma strip_trailing_eq_pad:
  assumes "\<forall>c \<in> set xs. c \<noteq> CHR ''=''"
  shows "strip_trailing_eq (xs @ replicate n CHR ''='') = xs"
proof -
  have "dropWhile (\<lambda>x. x = CHR ''='') (rev xs) = rev xs"
    using assms by (cases "rev xs") auto
  moreover have "dropWhile (\<lambda>x. x = CHR ''='') (replicate n CHR ''='' @ ys)
      = dropWhile (\<lambda>x. x = CHR ''='') ys" for ys
    by (induction n) simp_all
  ultimately show ?thesis
    by (simp add: strip_trailing_eq_def)
qed

lemma btoa_fromCharCode: "btoa (map fromCharCode bs) = base64 bs"
proof -
  have "(of_nat (of_char (char_of (unat b))) :: 8 word) = b" for b :: "8 word"
  proof -
    have "unat b < 256" using unsigned_less[of b, where 'a = nat] by simp
    then show ?thesis by simp
  qed
  then have "map (\<lambda>c. of_nat (of_char c) :: 8 word) (map fromCharCode bs) = bs"
    by (simp add: fromCharCode_def map_idI)
  then show ?thesis by (simp add: btoa_def)
qed

lemma toBase64_eq:
  "toBase64 pf bs =
     (if has_Buffer pf \<or> has_btoa pf then Inr (base64 bs)
      else Inl (ThrownError (new_Error ''btoa is not available in this environment'')))"
  by (simp add: toBase64_def btoa_fromCharCode)

lemma base64UrlEncodeBytes_eq:
  "base64UrlEncodeBytes pf bs =
     (if has_Buffer pf \<or> has_btoa pf then Inr (base64url_nopad bs)
      else Inl (ThrownError (new_Error ''btoa is not available in this environment'')))"
proof -
  obtain n where n: "replace_char CHR ''/'' CHR ''_'' (replace_char CHR ''+'' CHR ''-'' (base64 bs))
       = base64url_nopad bs @ replicate n CHR ''=''" using urlsafe_base64 by blast
  have "\<forall>c \<in> set (base64url_nopad bs). c \<noteq> CHR ''=''"
    using base64url_nopad_chars[of bs] base64url_alphabet_props by blast
  then have "strip_trailing_eq (base64url_nopad bs @ replicate n CHR ''='') = base64url_nopad bs"
    by (rule strip_trailing_eq_pad)
  then show ?thesis
    by (simp add: base64UrlEncodeBytes_def toBase64_eq n)
qed

lemma TextEncoder_encode_ascii:
  assumes "\<forall>c \<in> set s. (of_char c :: nat) < 128"
  shows "TextEncoder_encode s = ascii_bytes s"
  using assms by (induction s) (simp_all add: TextEncoder_encode_def ascii_bytes_def utf8_char_def)

section \<open>The token and the URL\<close>

lemma base64url_nopad_ascii:
  "c \<in> set (base64url_nopad bs) \<Longrightarrow> (of_char c :: nat) < 128 \<and> urlencoded_safe (of_char c)"
  using base64url_nopad_chars[of bs] base64url_alphabet_props by blast

lemma signJwt_eq:
  "signJwt pf payload secret =
     (if has_Buffer pf \<or> has_btoa pf
      then (case subtle_hmac pf of
              None \<Rightarrow>
                Inl (ThrownError (new_Error
                  ''Web Crypto API is not available; requires a Node 18+ or Edge runtime.''))
            | Some sign \<Rightarrow>
                (case sign (TextEncoder_encode secret)
                        (ascii_bytes
                          (base64url_nopad (TextEncoder_encode (JSON_stringify pf jwt_header))
                           @ ''.'' @
                           base64url_nopad (TextEncoder_encode (JSON_stringify pf (JObj payload)))))
                 of Inl e \<Rightarrow> Inl e
                  | Inr sig \<Rightarrow>
                      Inr (base64url_nopad (TextEncoder_encode (JSON_stringify pf jwt_header))
                           @ ''.'' @
                           base64url_nopad (TextEncoder_encode (JSON_stringify pf (JObj payload)))
                           @ ''.'' @ base64url_nopad sig)))
      else Inl (ThrownError (new_Error ''btoa is not available in this environment'')))"
proof -
  let ?H = "base64url_nopad (TextEncoder_encode (JSON_stringify pf jwt_header))"
  let ?P = "base64url_nopad (TextEncoder_encode (JSON_stringify pf (JObj payload)))"
  have "\<forall>c \<in> set (?H @ ''.'' @ ?P). (of_char c :: nat) < 128"
    using base64url_nopad_ascii by auto
  then have enc: "TextEncoder_encode (?H @ ''.'' @ ?P) = ascii_bytes (?H @ ''.'' @ ?P)"
    by (rule TextEncoder_encode_ascii)
  show ?thesis
    unfolding signJwt_def base64UrlEncodeString_def base64UrlEncodeBytes_eq hmacSha256_def Let_def
    using enc by (simp split: option.split sum.split)
qed

lemma signJwt_chars:
  assumes "signJwt pf payload secret = Inr tok"
  shows "\<forall>c \<in> set tok. (of_char c :: nat) < 128 \<and> urlencoded_safe (of_char c)"
proof -
  have dot: "(of_char CHR ''.'' :: nat) < 128 \<and> urlencoded_safe (of_char CHR ''.'')"
    by (simp add: urlencoded_safe_def)
  from assms obtain sig where
    "tok = base64url_nopad (TextEncoder_encode (JSON_stringify pf jwt_header))
                  @ ''.'' @
                  base64url_nopad (TextEncoder_encode (JSON_stringify pf (JObj payload)))
                  @ ''.'' @ base64url_nopad sig"
    by (auto simp: signJwt_eq split: option.splits sum.splits if_splits)
  then show ?thesis
    using base64url_nopad_ascii dot by auto
qed

lemma urlencode_safe:
  assumes "\<forall>c \<in> set s. (of_char c :: nat) < 128 \<and> urlencoded_safe (of_char c)"
  shows "urlencode s = s"
  using assms
proof (induction s)
  case Nil
  show ?case by (simp add: urlencode_def TextEncoder_encode_def)
next
  case (Cons c s)
  let ?n = "of_char c :: nat"
  from Cons.prems have n: "?n < 128" and safe: "urlencoded_safe ?n" by simp_all
  have u: "unat (of_nat ?n :: 8 word) = ?n"
    using n by (simp add: unat_of_nat)
  have "?n \<noteq> 32" using safe by (auto simp: urlencoded_safe_def)
  then have "urlencode_byte (of_nat ?n) = [c]"
    using safe by (simp add: urlencode_byte_def u)
  moreover have "urlencode s = s" using Cons by simp
  ultimately show ?case
    using n by (simp add: urlencode_def TextEncoder_encode_def utf8_char_def)
qed

lemma urlencode_token: "urlencode ''token'' = ''token''"
  by (rule urlencode_safe) (simp add: urlencoded_safe_def)

lemma buildUrl_Inr:
  assumes "buildUrl pf cfg w p iat = (w1, Inr url)"
  shows "\<exists>obj key tok origin.
           w1 = w\<lparr>heap := heap w @ [obj]\<rparr> \<and> cfg_apiKey cfg = Some key
           \<and> signJwt pf obj key = Inr tok \<and> URL_base pf (cfg_baseUrl cfg) = Some origin
           \<and> url = \<lparr>url_origin = origin, url_pathname = ''/api/v1/images'',
                     url_searchParams = [(''token'', tok)]\<rparr>"
proof -
  obtain obj u where pc: "payload_contents cfg (heap w ! p) iat = (obj, u)"
    by (cases "payload_contents cfg (heap w ! p) iat")
  from assms pc have w1: "w1 = w\<lparr>heap := heap w @ [obj]\<rparr>"
    by (simp add: buildUrl_contents)
  from assms pc obtain key where key: "cfg_apiKey cfg = Some key"
    by (cases "cfg_apiKey cfg") (auto simp: buildUrl_contents apiKey_def split: sum.splits)
  from assms pc key obtain tok where tok: "signJwt pf obj key = Inr tok"
    by (cases "signJwt pf obj key") (auto simp: buildUrl_contents apiKey_def split: sum.splits)
  from assms pc key tok obtain origin where o: "URL_base pf (cfg_baseUrl cfg) = Some origin"
    by (cases "URL_base pf (cfg_baseUrl cfg)")
       (auto simp: buildUrl_contents apiKey_def new_URL_def split: sum.splits)
  from assms pc key tok o have "url = \<lparr>url_origin = origin, url_pathname = ''/api/v1/images'',
                     url_searchParams = [(''token'', tok)]\<rparr>"
    by (auto simp: buildUrl_contents apiKey_def new_URL_def ENDPOINT_PATH_def split: sum.splits)
  with w1 key tok o show ?thesis by blast
qed

lemma URL_toString_token:
  assumes "\<forall>c \<in> set tok. (of_char c :: nat) < 128 \<and> urlencoded_safe (of_char c)"
  shows "URL_toString \<lparr>url_origin = origin, url_pathname = ''/api/v1/images'',
                       url_searchParams = [(''token'', tok)]\<rparr>
         = origin @ ''/api/v1/images?token='' @ tok"
  by (simp add: URL_toString_def urlencode_token urlencode_safe[OF assms])

section \<open>A run on the example inputs\<close>

lemma show_nat_500: "show_nat 500 = ''500''"
  by (simp add: show_nat.simps char_of_def bit_0)

lemma example_signJwt:
  "signJwt stub_platform
     [(''title'', JStr ''x''), (''iss'', JStr ''example.com''), (''sub'', JStr ''secret-k'')]
     ''secret-key-123''
   = Inr ''eyJhbGciOiJIUzI1NiIsInR5cCI6IkpXVCJ9.eyJ0aXRsZSI6IngifQ.UWZpZ24''"
  by (simp add: signJwt_def stub_platform_def stub_stringify_def jwt_header_def
      base64UrlEncodeString_def base64UrlEncodeBytes_def toBase64_def hmacSha256_def
      stub_hmac_def replace_char_def strip_trailing_eq_def TextEncoder_encode_def utf8_char_def
      base64_digit_def base64_alphabet_def)

lemma example_urlencode:
  "urlencode ''token'' = ''token''"
  "urlencode ''eyJhbGciOiJIUzI1NiIsInR5cCI6IkpXVCJ9.eyJ0aXRsZSI6IngifQ.UWZpZ24''
   = ''eyJhbGciOiJIUzI1NiIsInR5cCI6IkpXVCJ9.eyJ0aXRsZSI6IngifQ.UWZpZ24''"
  by (simp_all add: urlencode_def urlencode_byte_def TextEncoder_encode_def utf8_char_def
      urlencoded_safe_def char_of_def bit_0)

lemma example_buildUrl:
  "buildUrl stub_platform example_config (world_with [(''title'', JStr ''x'')]) 0 None
   = (\<lparr>heap = [[(''title'', JStr ''x'')],
               [(''title'', JStr ''x''), (''iss'', JStr ''example.com''),
                (''sub'', JStr ''secret-k'')]], fetch_log = []\<rparr>,
      Inr \<lparr>url_origin = ''https://ogpilot.com'', url_pathname = ''/api/v1/images'',
           url_searchParams = [(''token'',
             ''eyJhbGciOiJIUzI1NiIsInR5cCI6IkpXVCJ9.eyJ0aXRsZSI6IngifQ.UWZpZ24'')]\<rparr>)"
proof -
  have pc: "payload_contents example_config [(''title'', JStr ''x'')] None
      = ([(''title'', JStr ''x''), (''iss'', JStr ''example.com''), (''sub'', JStr ''secret-k'')],
         Inr ())"
    by (simp add: payload_contents_def iat_assigned_def iss_defaulted_def sub_defaulted_def
        validatePayload_def get_prop_def example_config_def)
  have k: "apiKey example_config = Inr ''secret-key-123''"
    by (simp add: apiKey_def example_config_def)
  have u: "new_URL stub_platform ENDPOINT_PATH (cfg_baseUrl example_config)
      = Inr \<lparr>url_origin = ''https://ogpilot.com'', url_pathname = ''/api/v1/images'',
             url_searchParams = []\<rparr>"
    by (simp add: new_URL_def stub_platform_def ENDPOINT_PATH_def example_config_def)
  show ?thesis
    by (simp add: buildUrl_contents world_with_def pc k u example_signJwt)
qed

lemma example_run:
  "createImage stub_platform example_config (world_with [(''title'', JStr ''x'')]) (Some 0)
     default_options
   = (\<lparr>heap = [[(''title'', JStr ''x'')],
               [(''title'', JStr ''x''), (''iss'', JStr ''example.com''),
                (''sub'', JStr ''secret-k'')]],
       fetch_log =
         [\<lparr>req_url = ''https://ogpilot.com/api/v1/images?token=eyJhbGciOiJIUzI1NiIsInR5cCI6IkpXVCJ9.eyJ0aXRsZSI6IngifQ.UWZpZ24'',
           req_method = ''GET'', req_headers = [], req_redirect = ''manual'',
           req_signal = Some (Finite 15000)\<rparr>]\<rparr>,
      Some (Inr (JStr ''https://example.com/img.png'')))"
proof -
  have f: "fetchImpl stub_platform example_config = Some (\<lambda>req. Resolves stub_response)"
    by (simp add: fetchImpl_def stub_platform_def example_config_def)
  have h: "request_headers stub_platform False [] = Inr []"
    by (simp add: request_headers_def)
  have t: "armed_timeout example_config = Some (Finite 15000)"
    by (simp add: armed_timeout_def totalTimeoutMs_def example_config_def)
  show ?thesis
    by (simp add: createImage_stages default_options_def nullish_or_def example_buildUrl
        request_fetched[OF f h] fetch_request_def URL_toString_def example_urlencode t
        stub_response_def Headers_get_def ascii_lower_def)
qed

section \<open>Rounding to the nearest double\<close>

lemma round_half_even_error: "\<bar>of_int (round_half_even x) - x\<bar> \<le> 1 / 2"
proof -
  have "of_int \<lfloor>x\<rfloor> \<le> x" "x < of_int \<lfloor>x\<rfloor> + 1" by linarith+
  then show ?thesis by (auto simp: round_half_even_def Let_def)
qed

lemma round_half_even_of_int: "round_half_even (of_int n) = n"
  by (simp add: round_half_even_def)

lemma round_double_error:
  assumes "x \<noteq> 0"
  shows "\<bar>round_double x - x\<bar> \<le> 2 powr of_int (\<lfloor>log 2 \<bar>x\<bar>\<rfloor> - 52) / 2"
proof -
  let ?u = "2 powr of_int (\<lfloor>log 2 \<bar>x\<bar>\<rfloor> - 52) :: real"
  have u: "0 < ?u" by simp
  have "round_double x - x = (of_int (round_half_even (x / ?u)) - x / ?u) * ?u"
    using assms u by (simp add: round_double_def Let_def field_simps)
  then have "\<bar>round_double x - x\<bar> = \<bar>of_int (round_half_even (x / ?u)) - x / ?u\<bar> * ?u"
    using u by (simp add: abs_mult)
  also have "\<dots> \<le> (1 / 2) * ?u"
    using round_half_even_error[of "x / ?u"] u by (intro mult_right_mono) simp_all
  finally show ?thesis by simp
qed

lemma ulp_small:
  assumes "x \<noteq> 0" and "\<bar>x\<bar> < 8796093022208"
  shows "2 powr of_int (\<lfloor>log 2 \<bar>x\<bar>\<rfloor> - 52) \<le> (1 / 1024 :: real)"
proof -
  have "\<bar>x\<bar> < 2 powr 43" using assms(2) by simp
  then have "log 2 \<bar>x\<bar> < 43" using assms(1) by (simp add: log_less_iff)
  then have "\<lfloor>log 2 \<bar>x\<bar>\<rfloor> \<le> 42" by linarith
  then have "(of_int (\<lfloor>log 2 \<bar>x\<bar>\<rfloor> - 52) :: real) \<le> - 10" by simp
  then have "2 powr of_int (\<lfloor>log 2 \<bar>x\<bar>\<rfloor> - 52) \<le> (2 powr (- 10) :: real)"
    by (intro powr_mono) simp_all
  also have "(2 powr (- 10) :: real) = 1 / 1024" by (simp add: powr_minus_divide)
  finally show ?thesis .
qed

lemma round_double_of_int:
  assumes "\<bar>k\<bar> < 9007199254740992"
  shows "round_double (of_int k) = of_int k"
proof (cases "k = 0")
  case True
  then show ?thesis by (simp add: round_double_def)
next
  case False
  let ?x = "of_int k :: real"
  let ?e = "\<lfloor>log 2 \<bar>?x\<bar>\<rfloor>"
  have pos: "0 < \<bar>?x\<bar>" using False by simp
  have "1 \<le> \<bar>?x\<bar>" using False by (simp flip: of_int_abs)
  then have "0 \<le> log 2 \<bar>?x\<bar>" by simp
  then have e0: "0 \<le> ?e" by simp
  have "\<bar>?x\<bar> < 2 powr 53" using assms by (simp flip: of_int_abs)
  then have "log 2 \<bar>?x\<bar> < 53" using pos by (simp add: log_less_iff)
  then have e52: "?e \<le> 52" by linarith
  define n where "n = nat (52 - ?e)"
  have "(2::real) powr real_of_int (?e - 52) =
      (if 0 \<le> ?e - 52 then 2 ^ nat (?e - 52) else inverse (2 ^ nat (- (?e - 52))))"
    by (rule powr_real_of_int) simp
  also have "\<dots> = inverse ((2::real) ^ n)"
    using e52 by (cases "?e = 52") (simp_all add: n_def)
  finally have u: "2 powr real_of_int (?e - 52) = inverse ((2::real) ^ n)" .
  have "?x / (2 powr real_of_int (?e - 52)) = of_int (k * 2 ^ n)"
    unfolding u by (simp add: field_simps)
  then have "round_half_even (?x / (2 powr real_of_int (?e - 52))) = k * 2 ^ n"
    by (simp only: round_half_even_of_int)
  then have "of_int (round_half_even (?x / (2 powr real_of_int (?e - 52))))
      * 2 powr real_of_int (?e - 52) = ?x"
    unfolding u by simp
  moreover have "round_double ?x = of_int (round_half_even (?x / (2 powr real_of_int (?e - 52))))
      * 2 powr real_of_int (?e - 52)"
    using False unfolding round_double_def Let_def by simp
  ultimately show ?thesis by simp
qed

lemma round_double_near:
  assumes nz: "x \<noteq> 0" and small: "\<bar>x\<bar> < 8796093022208"
  shows "\<bar>round_double x - x\<bar> \<le> 1 / 2048"
proof -
  define U :: real where "U = 2 powr of_int (\<lfloor>log 2 \<bar>x\<bar>\<rfloor> - 52)"
  have 1: "\<bar>round_double x - x\<bar> \<le> U / 2"
    unfolding U_def by (rule round_double_error[OF nz])
  have 2: "U \<le> 1 / 1024"
    unfolding U_def by (rule ulp_small[OF nz small])
  from 1 2 show ?thesis by linarith
qed

lemma floor_between:
  fixes r q :: real
  assumes "\<bar>r - q\<bar> \<le> 1 / 2048" and "of_int k + 1 / 1000 \<le> q" and "q \<le> of_int k + 999 / 1000"
  shows "\<lfloor>r\<rfloor> = k"
proof (rule floor_unique)
  show "of_int k \<le> r" using assms by linarith
  show "r < of_int k + 1" using assms by linarith
qed

lemma floor_round_double_div1000:
  assumes "\<bar>m\<bar> \<le> 8640000000000000"
  shows "\<lfloor>round_double (of_int m / 1000)\<rfloor> = m div 1000"
proof -
  define k where "k = m div 1000"
  define j where "j = m mod 1000"
  have m: "m = 1000 * k + j" and j: "0 \<le> j" "j < 1000"
    by (simp_all add: k_def j_def)
  define q :: real where "q = of_int m / 1000"
  have q: "q = of_int k + of_int j / 1000" by (simp add: q_def m)
  show ?thesis
  proof (cases "j = 0")
    case True
    then have qk: "q = of_int k" by (simp add: q)
    have mk: "m = 1000 * k" using m True by simp
    have "- 8640000000000000 \<le> m" "m \<le> 8640000000000000"
      using assms by (simp_all add: abs_le_iff)
    then have "- 9007199254740992 < k" "k < 9007199254740992"
      unfolding mk by simp_all
    then have "\<bar>k\<bar> < 9007199254740992" by (simp add: abs_less_iff)
    then have "round_double q = of_int k"
      unfolding qk by (rule round_double_of_int)
    then show ?thesis by (simp add: k_def flip: q_def)
  next
    case False
    with j have j1: "1 \<le> j" "j \<le> 999" by simp_all
    then have jr: "1 \<le> real_of_int j" "real_of_int j \<le> 999" by simp_all
    have lo: "of_int k + 1 / 1000 \<le> q" and hi: "q \<le> of_int k + 999 / 1000"
      using jr unfolding q by simp_all
    have nz: "q \<noteq> 0"
    proof
      assume "q = 0"
      then have "m = 0" by (simp add: q_def)
      then have "j = 0" by (simp add: j_def)
      with j1 show False by simp
    qed
    have "\<bar>real_of_int m\<bar> \<le> 8640000000000000"
      using assms by (simp flip: of_int_abs)
    then have small: "\<bar>q\<bar> < 8796093022208" by (simp add: q_def)
    have "\<lfloor>round_double q\<rfloor> = k"
      using round_double_near[OF nz small] lo hi by (rule floor_between)
    then show ?thesis by (simp add: k_def flip: q_def)
  qed
qed

lemma round_double_binade:
  assumes "0 < x" and "2 powr of_int e \<le> x" and "x < 2 powr of_int (e + 1)"
  shows "round_double x =
           of_int (round_half_even (x / 2 powr of_int (e - 52))) * 2 powr of_int (e - 52)"
proof -
  have "\<lfloor>log 2 x\<rfloor> = e"
    using assms by (simp add: floor_log_eq_powr_iff)
  then show ?thesis
    using assms(1) by (simp add: round_double_def Let_def)
qed

lemma round_double_large:
  "round_double (9999999999999997952 / 1000) = 9999999999999998"
proof -
  have "round_double (9999999999999997952 / 1000) =
      of_int (round_half_even ((9999999999999997952 / 1000) / 2 powr of_int (53 - 52)))
        * 2 powr of_int (53 - 52)"
    by (rule round_double_binade) simp_all
  also have "round_half_even ((9999999999999997952 / 1000) / 2 powr of_int (53 - 52))
      = 4999999999999999"
    by (simp add: round_half_even_def Let_def)
  finally show ?thesis by simp
qed


lemma floor_round_double_examples:
  "\<lfloor>round_double (1700000000123 / 1000)\<rfloor> = 1700000000"
  "\<lfloor>round_double (1999 / 1000)\<rfloor> = 1"
  using floor_round_double_div1000[of 1700000000123] floor_round_double_div1000[of 1999]
  by simp_all

section \<open>The claims\<close>

subsection \<open>C10: the caller's record is left as it was\<close>

text \<open>
  Claim C10. \<open>createImage\<close> never changes the caller's params record: the payload is a
  fresh copy, and \<open>iat\<close>, \<open>iss\<close> and \<open>sub\<close> are written to the copy. Whatever the call
  answers (a value, a thrown error, or nothing because the transport never settles), the
  object at the address of params is the same afterwards.
\<close>

theorem createImage_params_unchanged:
  assumes "createImage pf cfg w (Some a) options = (w', r)" and "a < length (heap w)"
  shows "heap w' ! a = heap w ! a"
proof -
  from createImage_world[OF assms(1)] obtain objs where "heap w' = heap w @ objs" ..
  with assms(2) show ?thesis by (simp add: nth_append)
qed

text \<open>A run on the example inputs: the record with the title alone is still that.\<close>

theorem createImage_params_unchanged_witness:
  "heap (fst (createImage stub_platform example_config (world_with [(''title'', JStr ''x'')])
            (Some 0) default_options)) ! 0 = [(''title'', JStr ''x'')]"
  using createImage_params_unchanged [of stub_platform example_config
      "world_with [(''title'', JStr ''x'')]" 0 default_options
      "fst (createImage stub_platform example_config (world_with [(''title'', JStr ''x'')])
            (Some 0) default_options)"
      "snd (createImage stub_platform example_config (world_with [(''title'', JStr ''x'')])
            (Some 0) default_options)"]
  by (simp add: world_with_def)

subsection \<open>C7: the issued-at time\<close>

text \<open>
  Claim C7, as the code has it. The \<open>iat\<close> option is normalised before it is stored,
  and the payload that \<open>buildPayload\<close> answers holds the result under \<open>iat\<close>. A date
  gives the floor of its milliseconds divided by 1000. A number above 100,000,000,000
  gives the floor of the quotient by 1000 as the double division computes it, that is
  of the quotient rounded to the nearest double: for a whole number of milliseconds up
  to 8,640,000,000,000,000, the range of dates, this is the floor of the number divided
  by 1000. Any other number gives its floor.
\<close>

theorem normalizeIat_spec:
  "normalizeIat (IatDate d) = Math_floor (js_div1000 (getTime d))
   \<and> (\<bar>ms\<bar> \<le> 8640000000000000 \<longrightarrow>
        normalizeIat (IatDate (ValidDate ms)) = Finite (of_int \<lfloor>(of_int ms :: real) / 1000\<rfloor>))
   \<and> normalizeIat (IatNumber n) =
        (if js_gt n (Finite 100000000000) then Math_floor (js_div1000 n) else Math_floor n)
   \<and> normalizeIat (IatNumber (Finite v)) =
        (if 100000000000 < v then Finite (of_int \<lfloor>round_double (v / 1000)\<rfloor>)
         else Finite (of_int \<lfloor>v\<rfloor>))
   \<and> (100000000000 < m \<and> m \<le> 8640000000000000 \<longrightarrow>
        normalizeIat (IatNumber (Finite (of_int m))) =
          Finite (of_int \<lfloor>(of_int m :: real) / 1000\<rfloor>))
   \<and> (buildPayload cfg w params (Some i) = (w', Inr payload)
        \<longrightarrow> read_prop w' payload ''iat'' = JNum (normalizeIat i))"
proof -
  have date: "normalizeIat (IatDate (ValidDate ms)) = Finite (of_int \<lfloor>(of_int ms :: real) / 1000\<rfloor>)"
    if "\<bar>ms\<bar> \<le> 8640000000000000"
    using floor_round_double_div1000[OF that] by (simp add: floor_divide_of_int_eq[of ms 1000, simplified])
  have whole: "normalizeIat (IatNumber (Finite (of_int m))) =
          Finite (of_int \<lfloor>(of_int m :: real) / 1000\<rfloor>)"
    if "100000000000 < m \<and> m \<le> 8640000000000000"
  proof -
    from that have "\<bar>m\<bar> \<le> 8640000000000000" by simp
    from floor_round_double_div1000[OF this] that show ?thesis
      by (simp add: floor_divide_of_int_eq[of m 1000, simplified])
  qed
  have stored: "read_prop w' payload ''iat'' = JNum (normalizeIat i)"
    if b: "buildPayload cfg w params (Some i) = (w', Inr payload)"
  proof -
    obtain P u where pc: "payload_contents cfg (heap w ! params) (Some i) = (P, u)"
      by (cases "payload_contents cfg (heap w ! params) (Some i)")
    with b obtain x where u: "u = Inr x" and w': "w' = w\<lparr>heap := heap w @ [P]\<rparr>"
      and p: "payload = length (heap w)"
      by (auto simp: buildPayload_contents split: sum.splits)
    from payload_contents_Inr[OF pc[unfolded u]] have "get_prop P ''iat'' = JNum (normalizeIat i)"
      by simp
    then show ?thesis by (simp add: w' p read_prop_def)
  qed
  show ?thesis
    using date whole stored by simp
qed

lemma example_buildPayload_iat:
  "buildPayload example_config (world_with [(''title'', JStr ''x'')]) 0
     (Some (IatNumber (Finite 1700000000123)))
   = (\<lparr>heap = [[(''title'', JStr ''x'')],
               [(''title'', JStr ''x''), (''iat'', JNum (Finite 1700000000)),
                (''iss'', JStr ''example.com''), (''sub'', JStr ''secret-k'')]],
       fetch_log = []\<rparr>, Inr 1)"
  by (simp add: buildPayload_contents payload_contents_def iat_assigned_def iss_defaulted_def
      sub_defaulted_def validatePayload_def get_prop_def world_with_def example_config_def
      floor_round_double_examples)

theorem normalizeIat_spec_witness:
  "normalizeIat (IatNumber (Finite 1700000000123)) = Finite 1700000000
   \<and> normalizeIat (IatNumber (Finite (3 / 2))) = Finite 1
   \<and> normalizeIat (IatDate (ValidDate 1999)) = Finite 1
   \<and> read_prop \<lparr>heap = [[(''title'', JStr ''x'')],
               [(''title'', JStr ''x''), (''iat'', JNum (Finite 1700000000)),
                (''iss'', JStr ''example.com''), (''sub'', JStr ''secret-k'')]],
       fetch_log = []\<rparr> 1 ''iat'' = JNum (Finite 1700000000)"
  using normalizeIat_spec [where d = "ValidDate 1999" and ms = 1999
     and n = "Finite 1700000000123" and v = "3 / 2" and m = 1700000000123
     and cfg = example_config and w = "world_with [(''title'', JStr ''x'')]" and params = 0
     and i = "IatNumber (Finite 1700000000123)"
     and w' = "\<lparr>heap = [[(''title'', JStr ''x'')],
               [(''title'', JStr ''x''), (''iat'', JNum (Finite 1700000000)),
                (''iss'', JStr ''example.com''), (''sub'', JStr ''secret-k'')]],
       fetch_log = []\<rparr>" and payload = 1]
    example_buildPayload_iat
  by simp

text \<open>
  The claim as first stated fails: far above the range of dates the double quotient is
  rounded up past the floor of the exact quotient.
\<close>

theorem large_iat_not_exact_floor:
  "normalizeIat (IatNumber (Finite 9999999999999997952)) = Finite 9999999999999998
   \<and> \<lfloor>(9999999999999997952 :: real) / 1000\<rfloor> = 9999999999999997"
  using round_double_large by simp

subsection \<open>C4: a missing title\<close>

text \<open>
  Claim C4, as the code has it. When the title of params is absent, null or empty,
  \<open>createImage\<close> throws and the transport is not called. What it throws is the plain
  error \<open>OG Pilot title is required\<close> when issuer and subject, as supplied or defaulted,
  are present and non-empty, and a configuration error otherwise: issuer and subject
  are checked before the title.
\<close>

theorem createImage_title_missing:
  assumes "\<not> nonempty (get_prop (params_object w params) ''title'')"
  shows "\<exists>w' e. createImage pf cfg w params options = (w', Some (Inl (ThrownError e)))
           \<and> fetch_log w' = fetch_log w
           \<and> (if nonempty (resolved_iss cfg (params_object w params))
                  \<and> nonempty (resolved_sub cfg (params_object w params))
               then e = new_Error ''OG Pilot title is required''
               else err_class e = ConfigurationError)"
proof -
  let ?obj = "params_object w params"
  from payload_contents_snd[of cfg ?obj "opt_iat options"] obtain c where
    c: "err_class c = ConfigurationError" and
    s: "snd (payload_contents cfg ?obj (opt_iat options)) =
       (if nonempty (resolved_iss cfg ?obj) \<and> nonempty (resolved_sub cfg ?obj)
        then (if nonempty (get_prop ?obj ''title'') then Inr ()
              else Inl (ThrownError (new_Error ''OG Pilot title is required'')))
        else Inl (ThrownError c))" by blast
  show ?thesis
  proof (cases "nonempty (resolved_iss cfg ?obj) \<and> nonempty (resolved_sub cfg ?obj)")
    case True
    with s assms have "snd (payload_contents cfg ?obj (opt_iat options)) =
        Inl (ThrownError (new_Error ''OG Pilot title is required''))" by simp
    from createImage_early[OF this, of pf] True show ?thesis by auto
  next
    case False
    with s have "snd (payload_contents cfg ?obj (opt_iat options)) = Inl (ThrownError c)" by simp
    from createImage_early[OF this, of pf] False c show ?thesis by auto
  qed
qed

theorem createImage_title_missing_witness:
  "\<exists>w'. createImage stub_platform example_config (world_with [(''template'', JStr ''page'')])
           (Some 0) default_options
         = (w', Some (Inl (ThrownError (new_Error ''OG Pilot title is required''))))
       \<and> fetch_log w' = []"
  using createImage_title_missing [where w = "world_with [(''template'', JStr ''page'')]"
      and params = "Some 0" and pf = stub_platform and cfg = example_config
      and options = default_options]
  by (simp add: nonempty_def params_object_def world_with_def get_prop_def resolved_iss_def
      resolved_sub_def example_config_def)

text \<open>
  The claim as first stated fails: with a sound configuration and params that carry an
  empty \<open>iss\<close> and no title, the error is a configuration error, not the title error.
\<close>

theorem title_missing_configuration_error:
  "\<not> nonempty (get_prop (params_object (world_with [(''iss'', JStr [])]) (Some 0)) ''title'')
   \<and> snd (createImage stub_platform example_config (world_with [(''iss'', JStr [])]) (Some 0)
         default_options)
     = Some (Inl (ThrownError (new_ConfigurationError ''OG Pilot domain is missing'')))
   \<and> err_class (new_ConfigurationError ''OG Pilot domain is missing'') = ConfigurationError"
  by (simp add: createImage_stages buildUrl_contents payload_contents_def iat_assigned_def
      iss_defaulted_def sub_defaulted_def validatePayload_def get_prop_def world_with_def
      example_config_def default_options_def nonempty_def params_object_def
      new_ConfigurationError_def)

subsection \<open>C5: a missing secret\<close>

text \<open>
  Claim C5, as the code has it. When the configuration has no API key, \<open>createImage\<close>
  throws and the transport is not called. What it throws is a configuration error,
  except when params bring a non-empty \<open>sub\<close> of their own, the issuer is non-empty
  and the title is missing: then the payload is validated before the key is asked for,
  and the plain title error is thrown.
\<close>

theorem createImage_secret_absent:
  assumes "cfg_apiKey cfg = None"
  shows "\<exists>w' e. createImage pf cfg w params options = (w', Some (Inl (ThrownError e)))
           \<and> fetch_log w' = fetch_log w
           \<and> (if nonempty (resolved_iss cfg (params_object w params))
                  \<and> nonempty (get_prop (params_object w params) ''sub'')
                  \<and> \<not> nonempty (get_prop (params_object w params) ''title'')
               then e = new_Error ''OG Pilot title is required''
               else err_class e = ConfigurationError)"
proof -
  let ?obj = "params_object w params"
  have rs: "nonempty (resolved_sub cfg ?obj) = nonempty (get_prop ?obj ''sub'')"
    using assms by (simp add: resolved_sub_def nonempty_def)
  from payload_contents_snd[of cfg ?obj "opt_iat options"] obtain c where
    c: "err_class c = ConfigurationError" and
    s: "snd (payload_contents cfg ?obj (opt_iat options)) =
       (if nonempty (resolved_iss cfg ?obj) \<and> nonempty (resolved_sub cfg ?obj)
        then (if nonempty (get_prop ?obj ''title'') then Inr ()
              else Inl (ThrownError (new_Error ''OG Pilot title is required'')))
        else Inl (ThrownError c))" by blast
  consider (cfgerr) "\<not> (nonempty (resolved_iss cfg ?obj) \<and> nonempty (get_prop ?obj ''sub''))"
    | (title) "nonempty (resolved_iss cfg ?obj)" "nonempty (get_prop ?obj ''sub'')"
        "\<not> nonempty (get_prop ?obj ''title'')"
    | (built) "nonempty (resolved_iss cfg ?obj)" "nonempty (get_prop ?obj ''sub'')"
        "nonempty (get_prop ?obj ''title'')"
    by blast
  then show ?thesis
  proof cases
    case cfgerr
    with s rs have "snd (payload_contents cfg ?obj (opt_iat options)) = Inl (ThrownError c)" 
      by auto
    from createImage_early[OF this, of pf] cfgerr c show ?thesis by auto
  next
    case title
    with s rs have "snd (payload_contents cfg ?obj (opt_iat options)) =
        Inl (ThrownError (new_Error ''OG Pilot title is required''))" by simp
    from createImage_early[OF this, of pf] title show ?thesis by auto
  next
    case built
    with s rs have "snd (payload_contents cfg ?obj (opt_iat options)) = Inr ()" by simp
    from createImage_no_key[OF this assms, of pf] built show ?thesis
      by (auto simp: new_ConfigurationError_def)
  qed
qed

theorem createImage_secret_absent_witness:
  "\<exists>w' e. createImage stub_platform (example_config\<lparr>cfg_apiKey := None\<rparr>)
             (world_with [(''title'', JStr ''x'')]) (Some 0) default_options
           = (w', Some (Inl (ThrownError e)))
         \<and> fetch_log w' = [] \<and> err_class e = ConfigurationError"
  using createImage_secret_absent [where cfg = "example_config\<lparr>cfg_apiKey := None\<rparr>"
      and w = "world_with [(''title'', JStr ''x'')]" and params = "Some 0"
      and pf = stub_platform and options = default_options]
  by (simp add: nonempty_def params_object_def world_with_def get_prop_def resolved_iss_def
      example_config_def)

text \<open>
  The claim as first stated fails: without a key, params with their own \<open>sub\<close> and no
  title are refused with the title error, which is not a configuration error.
\<close>

theorem secret_absent_validation_error:
  "cfg_apiKey (example_config\<lparr>cfg_apiKey := None\<rparr>) = None
   \<and> snd (createImage stub_platform (example_config\<lparr>cfg_apiKey := None\<rparr>)
           (world_with [(''sub'', JStr ''abc'')]) (Some 0) default_options)
     = Some (Inl (ThrownError (new_Error ''OG Pilot title is required'')))
   \<and> err_class (new_Error ''OG Pilot title is required'') = PlainError"
  by (simp add: createImage_stages buildUrl_contents payload_contents_def iat_assigned_def
      iss_defaulted_def sub_defaulted_def validatePayload_def get_prop_def world_with_def
      example_config_def default_options_def new_Error_def)

subsection \<open>C1: issuer and subject by default\<close>

text \<open>
  Claim C1, as the code has it. In the payload that \<open>buildPayload\<close> answers, \<open>iss\<close> is
  the domain of the configuration when params have it undefined or null, and \<open>sub\<close> is
  the first 8 characters of the API key when params have it undefined or null; any
  other value of params, an empty one too, stays as it is. An empty \<open>iss\<close> or \<open>sub\<close> of
  the caller is therefore not replaced: the call ends in a configuration error.
\<close>

theorem buildPayload_defaults:
  "(buildPayload cfg w params iat = (w', Inr payload) \<longrightarrow>
      (if is_nullish (read_prop w params ''iss'')
       then \<exists>d. cfg_domain cfg = Some d \<and> read_prop w' payload ''iss'' = JStr d
       else read_prop w' payload ''iss'' = read_prop w params ''iss'')
      \<and> (if is_nullish (read_prop w params ''sub'')
         then \<exists>k. cfg_apiKey cfg = Some k \<and> read_prop w' payload ''sub'' = JStr (take 8 k)
         else read_prop w' payload ''sub'' = read_prop w params ''sub''))
   \<and> (String_is_empty (read_prop w params ''iss'') \<or> String_is_empty (read_prop w params ''sub'')
        \<longrightarrow> (\<exists>e. snd (buildPayload cfg w params iat) = Inl (ThrownError e)
                 \<and> err_class e = ConfigurationError))"
proof (rule conjI; rule impI)
  assume b: "buildPayload cfg w params iat = (w', Inr payload)"
  obtain P u where pc: "payload_contents cfg (heap w ! params) iat = (P, u)"
    by (cases "payload_contents cfg (heap w ! params) iat")
  with b obtain x where u: "u = Inr x" and w': "w' = w\<lparr>heap := heap w @ [P]\<rparr>"
    and p: "payload = length (heap w)"
    by (auto simp: buildPayload_contents split: sum.splits)
  have rp: "read_prop w' payload k = get_prop P k" for k
    by (simp add: w' p read_prop_def)
  from payload_contents_Inr[OF pc[unfolded u]]
  show "(if is_nullish (read_prop w params ''iss'')
       then \<exists>d. cfg_domain cfg = Some d \<and> read_prop w' payload ''iss'' = JStr d
       else read_prop w' payload ''iss'' = read_prop w params ''iss'')
      \<and> (if is_nullish (read_prop w params ''sub'')
         then \<exists>k. cfg_apiKey cfg = Some k \<and> read_prop w' payload ''sub'' = JStr (take 8 k)
         else read_prop w' payload ''sub'' = read_prop w params ''sub'')"
    unfolding rp by (simp add: read_prop_def)
next
  let ?obj = "heap w ! params"
  assume e: "String_is_empty (read_prop w params ''iss'') \<or> String_is_empty (read_prop w params ''sub'')"
  have ne: "String_is_empty v \<Longrightarrow> \<not> is_nullish v" for v
    by (cases v) auto
  from e have "\<not> (nonempty (resolved_iss cfg ?obj) \<and> nonempty (resolved_sub cfg ?obj))"
    using ne by (auto simp: resolved_iss_def resolved_sub_def nonempty_def read_prop_def)
  moreover from payload_contents_snd[of cfg ?obj iat] obtain c where
    c: "err_class c = ConfigurationError" and
    s: "snd (payload_contents cfg ?obj iat) =
       (if nonempty (resolved_iss cfg ?obj) \<and> nonempty (resolved_sub cfg ?obj)
        then (if nonempty (get_prop ?obj ''title'') then Inr ()
              else Inl (ThrownError (new_Error ''OG Pilot title is required'')))
        else Inl (ThrownError c))" by blast
  ultimately have "snd (payload_contents cfg ?obj iat) = Inl (ThrownError c)" by auto
  then have "snd (buildPayload cfg w params iat) = Inl (ThrownError c)"
    by (cases "payload_contents cfg ?obj iat") (simp add: buildPayload_contents)
  with c show "\<exists>e. snd (buildPayload cfg w params iat) = Inl (ThrownError e)
                 \<and> err_class e = ConfigurationError" by blast
qed

lemma example_buildPayload:
  "buildPayload example_config (world_with [(''title'', JStr ''x'')]) 0 None
   = (\<lparr>heap = [[(''title'', JStr ''x'')],
               [(''title'', JStr ''x''), (''iss'', JStr ''example.com''),
                (''sub'', JStr ''secret-k'')]],
       fetch_log = []\<rparr>, Inr 1)"
  by (simp add: buildPayload_contents payload_contents_def iat_assigned_def iss_defaulted_def
      sub_defaulted_def validatePayload_def get_prop_def world_with_def example_config_def)

theorem buildPayload_defaults_witness:
  "read_prop \<lparr>heap = [[(''title'', JStr ''x'')],
               [(''title'', JStr ''x''), (''iss'', JStr ''example.com''),
                (''sub'', JStr ''secret-k'')]], fetch_log = []\<rparr> 1 ''iss'' = JStr ''example.com''
   \<and> read_prop \<lparr>heap = [[(''title'', JStr ''x'')],
               [(''title'', JStr ''x''), (''iss'', JStr ''example.com''),
                (''sub'', JStr ''secret-k'')]], fetch_log = []\<rparr> 1 ''sub'' = JStr ''secret-k''
   \<and> (\<exists>e. snd (buildPayload example_config
                  (world_with [(''sub'', JStr []), (''title'', JStr ''x'')]) 0 None)
              = Inl (ThrownError e) \<and> err_class e = ConfigurationError)"
  using buildPayload_defaults [where cfg = example_config
      and w = "world_with [(''title'', JStr ''x'')]" and params = 0 and iat = None
      and w' = "\<lparr>heap = [[(''title'', JStr ''x'')],
               [(''title'', JStr ''x''), (''iss'', JStr ''example.com''),
                (''sub'', JStr ''secret-k'')]], fetch_log = []\<rparr>" and payload = 1]
    buildPayload_defaults [where cfg = example_config
      and w = "world_with [(''sub'', JStr []), (''title'', JStr ''x'')]" and params = 0
      and iat = None]
    example_buildPayload
  by (simp add: read_prop_def get_prop_def world_with_def example_config_def)

text \<open>
  The claim as first stated fails: an empty \<open>iss\<close> is kept although the configuration
  has a domain, and the payload is refused.
\<close>

theorem empty_iss_not_defaulted:
  "String_is_empty (read_prop (world_with [(''iss'', JStr []), (''title'', JStr ''x'')]) 0 ''iss'')
   \<and> cfg_domain example_config = Some ''example.com''
   \<and> buildPayload example_config (world_with [(''iss'', JStr []), (''title'', JStr ''x'')]) 0 None
     = (\<lparr>heap = [[(''iss'', JStr []), (''title'', JStr ''x'')],
                 [(''iss'', JStr []), (''title'', JStr ''x''), (''sub'', JStr ''secret-k'')]],
         fetch_log = []\<rparr>,
        Inl (ThrownError (new_ConfigurationError ''OG Pilot domain is missing'')))"
  by (simp add: buildPayload_contents payload_contents_def iat_assigned_def iss_defaulted_def
      sub_defaulted_def validatePayload_def get_prop_def read_prop_def world_with_def
      example_config_def)

subsection \<open>C3: the deadline\<close>

text \<open>
  Claim C3, as the code has it. The total timeout is absent exactly when both the open
  and the read timeout are absent, and is their sum otherwise, an absent one counting
  as 0. The signal handed to the transport carries a deadline exactly when the total
  is present and greater than 0: a total that is 0, negative or NaN arms no timer.
\<close>

theorem totalTimeoutMs_deadline:
  "totalTimeoutMs cfg =
     (if cfg_openTimeoutMs cfg = None \<and> cfg_readTimeoutMs cfg = None then None
      else Some (js_add (nullish_or (cfg_openTimeoutMs cfg) (Finite 0))
                        (nullish_or (cfg_readTimeoutMs cfg) (Finite 0))))
   \<and> req_signal (fetch_request cfg url hs) =
       (case totalTimeoutMs cfg of
          None \<Rightarrow> None
        | Some t \<Rightarrow> if js_gt t (Finite 0) then Some t else None)"
proof -
  have "js_truthy_num t" if "js_gt t (Finite 0)" for t
    using that by (cases t) auto
  then show ?thesis
    by (auto simp: totalTimeoutMs_def armed_timeout_def fetch_request_def nullish_or_def Let_def
        split: option.splits)
qed

theorem totalTimeoutMs_deadline_witness:
  "totalTimeoutMs example_config = Some (Finite 15000)
   \<and> req_signal (fetch_request example_config example_url []) = Some (Finite 15000)"
  using totalTimeoutMs_deadline [of example_config example_url "[]"]
  by (simp add: example_config_def nullish_or_def)

text \<open>
  The claim as first stated fails: with both timeouts present and 0, the transport is
  called with a signal that never aborts.
\<close>

theorem zero_timeouts_no_deadline:
  "cfg_openTimeoutMs (example_config\<lparr>cfg_openTimeoutMs := Some (Finite 0),
       cfg_readTimeoutMs := Some (Finite 0)\<rparr>) = Some (Finite 0)
   \<and> cfg_readTimeoutMs (example_config\<lparr>cfg_openTimeoutMs := Some (Finite 0),
       cfg_readTimeoutMs := Some (Finite 0)\<rparr>) = Some (Finite 0)
   \<and> totalTimeoutMs (example_config\<lparr>cfg_openTimeoutMs := Some (Finite 0),
       cfg_readTimeoutMs := Some (Finite 0)\<rparr>) = Some (Finite 0)
   \<and> map req_signal (fetch_log (fst (request stub_platform
       (example_config\<lparr>cfg_openTimeoutMs := Some (Finite 0),
          cfg_readTimeoutMs := Some (Finite 0)\<rparr>) (world_with []) example_url False []))) = [None]"
  by (simp add: totalTimeoutMs_def armed_timeout_def request_def fetchImpl_def
      request_headers_def fetch_request_def stub_platform_def stub_response_def
      example_config_def world_with_def Let_def)

subsection \<open>C6: the errors of the request\<close>

text \<open>
  Claim C6. Once the transport has been called: a response with status 400 or more
  makes \<open>request\<close> throw a request error whose status field is the status and whose
  message is \<open>OG Pilot request failed with status\<close>, the status in decimal, a colon
  and the body text, an unreadable body counting as empty; that error leaves the catch
  clause as it is. A rejection of the transport always ends in a request error: one
  that is a request error already is passed on unchanged, an error named \<open>AbortError\<close>
  becomes the timed-out variant with the message of the abort, any other error the
  failed variant with its message, and a thrown value that is no error the failed
  variant without one; these three carry no status.
\<close>

theorem request_errors:
  assumes "fetchImpl pf cfg = Some f" and "request_headers pf json headers = Inr hs"
  shows "(\<forall>resp. f (fetch_request cfg url hs) = Resolves resp \<and> 400 \<le> resp_status resp \<longrightarrow>
            (\<exists>e. snd (request pf cfg w url json headers) = Some (Inl (ThrownError e))
                \<and> err_class e = RequestError \<and> err_name e = ''RequestError''
                \<and> err_message e =
                    ''OG Pilot request failed with status '' @ show_nat (resp_status resp)
                    @ '': '' @ (case resp_text resp of Inl _ \<Rightarrow> [] | Inr t \<Rightarrow> t)
                \<and> err_status e = Some (resp_status resp)))
       \<and> (\<forall>t. f (fetch_request cfg url hs) = Rejects t \<longrightarrow>
            (\<exists>e. snd (request pf cfg w url json headers) = Some (Inl (ThrownError e))
                \<and> err_class e = RequestError
                \<and> (\<forall>x. t = ThrownError x \<and> err_class x = RequestError \<longrightarrow> e = x)
                \<and> (\<forall>x. t = ThrownError x \<and> err_class x \<noteq> RequestError
                        \<and> err_name x = ''AbortError'' \<longrightarrow>
                      err_name e = ''RequestError''
                      \<and> err_message e = ''OG Pilot request timed out: '' @ err_message x
                      \<and> err_status e = None)
                \<and> (\<forall>x. t = ThrownError x \<and> err_class x \<noteq> RequestError
                        \<and> err_name x \<noteq> ''AbortError'' \<longrightarrow>
                      err_name e = ''RequestError''
                      \<and> err_message e = ''OG Pilot request failed: '' @ err_message x
                      \<and> err_status e = None)
                \<and> (\<forall>v. t = ThrownValue v \<longrightarrow>
                      err_name e = ''RequestError''
                      \<and> err_message e = ''OG Pilot request failed.''
                      \<and> err_status e = None)))"
proof (intro conjI allI impI)
  fix resp
  assume "f (fetch_request cfg url hs) = Resolves resp \<and> 400 \<le> resp_status resp"
  then have "snd (request pf cfg w url json headers) =
              Some (Inl (ThrownError (new_RequestError
                (''OG Pilot request failed with status '' @ show_nat (resp_status resp)
                 @ '': '' @ (case resp_text resp of Inl _ \<Rightarrow> [] | Inr t \<Rightarrow> t))
                (Some (resp_status resp)))))"
    by (simp add: request_fetched[OF assms])
  then show "\<exists>e. snd (request pf cfg w url json headers) = Some (Inl (ThrownError e))
                \<and> err_class e = RequestError \<and> err_name e = ''RequestError''
                \<and> err_message e =
                    ''OG Pilot request failed with status '' @ show_nat (resp_status resp)
                    @ '': '' @ (case resp_text resp of Inl _ \<Rightarrow> [] | Inr t \<Rightarrow> t)
                \<and> err_status e = Some (resp_status resp)"
    by (simp add: new_RequestError_def)
next
  fix t
  assume r: "f (fetch_request cfg url hs) = Rejects t"
  then have s: "snd (request pf cfg w url json headers) = Some (Inl (request_catch t))"
    by (simp add: request_fetched[OF assms])
  from request_catch_class[of t] obtain e where e: "request_catch t = ThrownError e"
    "err_class e = RequestError" by blast
  have s': "snd (request pf cfg w url json headers) = Some (Inl (ThrownError e))"
    by (simp add: s e)
  have 1: "\<forall>x. t = ThrownError x \<and> err_class x = RequestError \<longrightarrow> e = x"
    using e by (auto simp: request_catch_def)
  have 2: "\<forall>x. t = ThrownError x \<and> err_class x \<noteq> RequestError
                        \<and> err_name x = ''AbortError'' \<longrightarrow>
                      err_name e = ''RequestError''
                      \<and> err_message e = ''OG Pilot request timed out: '' @ err_message x
                      \<and> err_status e = None"
    using e by (auto simp: request_catch_def new_RequestError_def)
  have 3: "\<forall>x. t = ThrownError x \<and> err_class x \<noteq> RequestError
                        \<and> err_name x \<noteq> ''AbortError'' \<longrightarrow>
                      err_name e = ''RequestError''
                      \<and> err_message e = ''OG Pilot request failed: '' @ err_message x
                      \<and> err_status e = None"
    using e by (auto simp: request_catch_def new_RequestError_def)
  have 4: "\<forall>v. t = ThrownValue v \<longrightarrow>
                      err_name e = ''RequestError''
                      \<and> err_message e = ''OG Pilot request failed.''
                      \<and> err_status e = None"
    using e by (auto simp: request_catch_def new_RequestError_def)
  show "\<exists>e. snd (request pf cfg w url json headers) = Some (Inl (ThrownError e))
                \<and> err_class e = RequestError
                \<and> (\<forall>x. t = ThrownError x \<and> err_class x = RequestError \<longrightarrow> e = x)
                \<and> (\<forall>x. t = ThrownError x \<and> err_class x \<noteq> RequestError
                        \<and> err_name x = ''AbortError'' \<longrightarrow>
                      err_name e = ''RequestError''
                      \<and> err_message e = ''OG Pilot request timed out: '' @ err_message x
                      \<and> err_status e = None)
                \<and> (\<forall>x. t = ThrownError x \<and> err_class x \<noteq> RequestError
                        \<and> err_name x \<noteq> ''AbortError'' \<longrightarrow>
                      err_name e = ''RequestError''
                      \<and> err_message e = ''OG Pilot request failed: '' @ err_message x
                      \<and> err_status e = None)
                \<and> (\<forall>v. t = ThrownValue v \<longrightarrow>
                      err_name e = ''RequestError''
                      \<and> err_message e = ''OG Pilot request failed.''
                      \<and> err_status e = None)"
    by (intro exI[of _ e] conjI) (rule s' e(2) 1 2 3 4)+
qed

theorem request_errors_witness:
  "snd (request
         (stub_platform\<lparr>global_fetch := Some (\<lambda>req. Resolves
            \<lparr>resp_status = 500, resp_headers = [], resp_url = None, resp_text = Inr ''boom''\<rparr>)\<rparr>)
         example_config (world_with []) example_url False [])
     = Some (Inl (ThrownError
         \<lparr>err_class = RequestError, err_name = ''RequestError'',
          err_message = ''OG Pilot request failed with status 500: boom'',
          err_status = Some 500\<rparr>))
   \<and> snd (request
         (stub_platform\<lparr>global_fetch := Some (\<lambda>req. Rejects (ThrownError
            \<lparr>err_class = DOMException, err_name = ''AbortError'',
             err_message = ''This operation was aborted'', err_status = None\<rparr>))\<rparr>)
         example_config (world_with []) example_url False [])
     = Some (Inl (ThrownError
         \<lparr>err_class = RequestError, err_name = ''RequestError'',
          err_message = ''OG Pilot request timed out: This operation was aborted'',
          err_status = None\<rparr>))"
  using request_errors [where
      pf = "stub_platform\<lparr>global_fetch := Some (\<lambda>req. Resolves
            \<lparr>resp_status = 500, resp_headers = [], resp_url = None, resp_text = Inr ''boom''\<rparr>)\<rparr>"
      and cfg = example_config and json = False and headers = "[]" and hs = "[]"
      and f = "\<lambda>req. Resolves
            \<lparr>resp_status = 500, resp_headers = [], resp_url = None, resp_text = Inr ''boom''\<rparr>"
      and w = "world_with []" and url = example_url]
    request_errors [where
      pf = "stub_platform\<lparr>global_fetch := Some (\<lambda>req. Rejects (ThrownError
            \<lparr>err_class = DOMException, err_name = ''AbortError'',
             err_message = ''This operation was aborted'', err_status = None\<rparr>))\<rparr>"
      and cfg = example_config and json = False and headers = "[]" and hs = "[]"
      and f = "\<lambda>req. Rejects (ThrownError
            \<lparr>err_class = DOMException, err_name = ''AbortError'',
             err_message = ''This operation was aborted'', err_status = None\<rparr>)"
      and w = "world_with []" and url = example_url]
  by (auto simp: fetchImpl_def request_headers_def stub_platform_def example_config_def
      show_nat_500)

subsection \<open>C9: the location that is answered\<close>

text \<open>
  Claim C9. When the \<open>json\<close> option is off and the transport, called with the request
  of this call, resolves with a status below 400, \<open>createImage\<close> answers the
  \<open>Location\<close> header if the response has one, else the URL of the response if it has
  one, else the URL string that was requested.
\<close>

theorem createImage_location:
  assumes run: "createImage pf cfg w params options = (w', r)"
    and json: "nullish_or (opt_json options) False = False"
    and f: "fetchImpl pf cfg = Some f"
    and log: "fetch_log w' = fetch_log w @ [req]"
    and resp: "f req = Resolves resp"
    and status: "resp_status resp < 400"
  shows "r = Some (Inr (JStr
           (case Headers_get (resp_headers resp) ''location'' of
              Some l \<Rightarrow> l
            | None \<Rightarrow> (case resp_url resp of Some u \<Rightarrow> u | None \<Rightarrow> req_url req))))"
proof -
  obtain p w0 where pw: "(case params of Some a \<Rightarrow> (a, w) | None \<Rightarrow> alloc w []) = (p, w0)"
    by (cases "(case params of Some a \<Rightarrow> (a, w) | None \<Rightarrow> alloc w [])")
  note P = params_world[OF pw]
  obtain w1 u where bu: "buildUrl pf cfg w0 p (opt_iat options) = (w1, u)"
    by (cases "buildUrl pf cfg w0 p (opt_iat options)")
  have l1: "fetch_log w1 = fetch_log w" using buildUrl_log[OF bu] P by simp
  show ?thesis
  proof (cases u)
    case (Inl e)
    with run pw bu have "w' = w1" by (simp add: createImage_stages)
    with l1 log show ?thesis by simp
  next
    case (Inr url)
    let ?hd = "nullish_or (opt_headers options) []"
    show ?thesis
    proof (cases "request_headers pf False ?hd")
      case (Inl t)
      from request_bad_headers[OF f Inl] run pw bu Inr json have "w' = w1"
        by (simp add: createImage_stages)
      with l1 log show ?thesis by simp
    next
      case hs: (Inr hs)
      note rq = request_fetched[OF f hs, of w1 url]
      from run pw bu Inr json rq have w': "w' = w1\<lparr>fetch_log := fetch_log w1 @ [fetch_request cfg url hs]\<rparr>"
        by (auto simp: createImage_stages split: fetch_outcome.splits if_splits)
      with log l1 have req: "req = fetch_request cfg url hs" by simp
      have requrl: "URL_toString url = req_url req" by (simp add: req fetch_request_def)
      from resp status req have "snd (request pf cfg w1 url False ?hd) = Some (Inr resp)"
        by (simp add: rq)
      with run pw bu Inr json show ?thesis
        by (cases "request pf cfg w1 url False ?hd") (auto simp: createImage_stages requrl split: option.splits)
    qed
  qed
qed

theorem createImage_location_witness:
  "snd (createImage stub_platform example_config (world_with [(''title'', JStr ''x'')]) (Some 0)
         default_options)
   = Some (Inr (JStr ''https://example.com/img.png''))"
  using createImage_location [where pf = stub_platform and cfg = example_config
      and w = "world_with [(''title'', JStr ''x'')]" and params = "Some 0"
      and options = default_options
      and w' = "fst (createImage stub_platform example_config
                  (world_with [(''title'', JStr ''x'')]) (Some 0) default_options)"
      and r = "snd (createImage stub_platform example_config
                  (world_with [(''title'', JStr ''x'')]) (Some 0) default_options)"
      and f = "\<lambda>req. Resolves stub_response"
      and req = "\<lparr>req_url = ''https://ogpilot.com/api/v1/images?token=eyJhbGciOiJIUzI1NiIsInR5cCI6IkpXVCJ9.eyJ0aXRsZSI6IngifQ.UWZpZ24'',
           req_method = ''GET'', req_headers = [], req_redirect = ''manual'',
           req_signal = Some (Finite 15000)\<rparr>"
      and resp = stub_response]
  unfolding example_run
  by (simp add: fetchImpl_def stub_platform_def example_config_def
      default_options_def nullish_or_def world_with_def stub_response_def Headers_get_def
      ascii_lower_def)

subsection \<open>C2: the token\<close>

text \<open>
  Claim C2. The signer answers a token exactly when the runtime can encode base64 and
  its HMAC-SHA-256, keyed by the bytes of the secret, signs the ASCII bytes of
  \<open>header.claims\<close>; the token is then the base64url encoding without padding of the
  JSON of the fixed header, a dot, that encoding of the JSON of the claims, a dot, and
  that encoding of the signature.
\<close>

theorem signJwt_token:
  "(signJwt pf payload secret = Inr tok) =
     ((has_Buffer pf \<or> has_btoa pf) \<and>
      (\<exists>sign sig.
         subtle_hmac pf = Some sign
         \<and> sign (TextEncoder_encode secret)
               (ascii_bytes
                 (base64url_nopad (TextEncoder_encode (JSON_stringify pf jwt_header))
                  @ ''.'' @
                  base64url_nopad (TextEncoder_encode (JSON_stringify pf (JObj payload)))))
             = Inr sig
         \<and> tok = base64url_nopad (TextEncoder_encode (JSON_stringify pf jwt_header))
                  @ ''.'' @
                  base64url_nopad (TextEncoder_encode (JSON_stringify pf (JObj payload)))
                  @ ''.'' @ base64url_nopad sig))"
  by (auto simp: signJwt_eq split: option.splits sum.splits)

theorem signJwt_token_witness:
  "signJwt stub_platform [(''title'', JStr ''x'')] ''secret''
   = Inr ''eyJhbGciOiJIUzI1NiIsInR5cCI6IkpXVCJ9.eyJ0aXRsZSI6IngifQ.UWZpZ24''"
  using signJwt_token [where pf = stub_platform and payload = "[(''title'', JStr ''x'')]"
      and secret = "''secret''"
      and tok = "''eyJhbGciOiJIUzI1NiIsInR5cCI6IkpXVCJ9.eyJ0aXRsZSI6IngifQ.UWZpZ24''"]
  by (simp add: stub_platform_def stub_stringify_def stub_hmac_def jwt_header_def
      TextEncoder_encode_def utf8_char_def ascii_bytes_def base64url_digit_def
      base64url_alphabet_def)

subsection \<open>C8: the URL of the request\<close>

text \<open>
  Claim C8. In every call that answers a value, the transport was called once, with the
  URL whose path is \<open>/api/v1/images\<close> on the scheme and authority of the configured
  base, and whose only query parameter is \<open>token\<close>, the token signed over the payload
  with the API key: as a string, the base's origin, then \<open>/api/v1/images?token=\<close>, then
  the token.
\<close>

theorem createImage_request_url:
  assumes run: "createImage pf cfg w params options = (w', Some (Inr v))"
  shows "\<exists>origin key tok req.
           URL_base pf (cfg_baseUrl cfg) = Some origin
           \<and> cfg_apiKey cfg = Some key
           \<and> signJwt pf (last (heap w')) key = Inr tok
           \<and> fetch_log w' = fetch_log w @ [req]
           \<and> req_url req =
               URL_toString \<lparr>url_origin = origin, url_pathname = ''/api/v1/images'',
                             url_searchParams = [(''token'', tok)]\<rparr>
           \<and> req_url req = origin @ ''/api/v1/images?token='' @ tok"
proof -
  obtain p w0 where pw: "(case params of Some a \<Rightarrow> (a, w) | None \<Rightarrow> alloc w []) = (p, w0)"
    by (cases "(case params of Some a \<Rightarrow> (a, w) | None \<Rightarrow> alloc w [])")
  note P = params_world[OF pw]
  obtain w1 u where bu: "buildUrl pf cfg w0 p (opt_iat options) = (w1, u)"
    by (cases "buildUrl pf cfg w0 p (opt_iat options)")
  from run pw bu obtain url where u: "u = Inr url"
    by (cases u) (auto simp: createImage_stages)
  from buildUrl_Inr[OF bu[unfolded u]] obtain obj key tok origin where
    w1: "w1 = w0\<lparr>heap := heap w0 @ [obj]\<rparr>" and key: "cfg_apiKey cfg = Some key"
    and tok: "signJwt pf obj key = Inr tok"
    and origin: "URL_base pf (cfg_baseUrl cfg) = Some origin"
    and url: "url = \<lparr>url_origin = origin, url_pathname = ''/api/v1/images'',
                     url_searchParams = [(''token'', tok)]\<rparr>"
    by blast
  let ?json = "nullish_or (opt_json options) False"
  let ?hd = "nullish_or (opt_headers options) []"
  obtain w2 q where rq: "request pf cfg w1 url ?json ?hd = (w2, q)"
    by (cases "request pf cfg w1 url ?json ?hd")
  from run pw bu u rq have w': "w' = w2" and q: "\<exists>resp. q = Some (Inr resp)"
    by (auto simp: createImage_stages split: option.splits sum.splits)
  obtain f where f: "fetchImpl pf cfg = Some f"
    using rq q request_no_fetch[of pf cfg w1 url ?json ?hd]
    by (cases "fetchImpl pf cfg") auto
  obtain hs where hs: "request_headers pf ?json ?hd = Inr hs"
    using rq q request_bad_headers[OF f, of ?json ?hd _ w1 url]
    by (cases "request_headers pf ?json ?hd") auto
  from request_fetched[OF f hs, of w1 url] rq
  have w2: "w2 = w1\<lparr>fetch_log := fetch_log w1 @ [fetch_request cfg url hs]\<rparr>" by simp
  have log: "fetch_log w' = fetch_log w @ [fetch_request cfg url hs]"
    using w' w2 w1 P by simp
  have last: "last (heap w') = obj" using w' w2 w1 by simp
  have ru: "req_url (fetch_request cfg url hs) = URL_toString url"
    by (simp add: fetch_request_def)
  have str: "URL_toString url = origin @ ''/api/v1/images?token='' @ tok"
    unfolding url by (rule URL_toString_token[OF signJwt_chars[OF tok]])
  show ?thesis
    using origin key tok log last ru str url by auto
qed

theorem createImage_request_url_witness:
  "map req_url (fetch_log (fst (createImage stub_platform example_config
      (world_with [(''title'', JStr ''x'')]) (Some 0) default_options)))
   = [''https://ogpilot.com/api/v1/images?token=eyJhbGciOiJIUzI1NiIsInR5cCI6IkpXVCJ9.eyJ0aXRsZSI6IngifQ.UWZpZ24'']"
  using createImage_request_url [where pf = stub_platform and cfg = example_config
      and w = "world_with [(''title'', JStr ''x'')]" and params = "Some 0"
      and options = default_options
      and w' = "fst (createImage stub_platform example_config
                  (world_with [(''title'', JStr ''x'')]) (Some 0) default_options)"
      and v = "JStr ''https://example.com/img.png''"]
  unfolding example_run
  by (auto simp: world_with_def)

end
